theory Spec2Isabelle
  imports Complex_Main "HOL-Library.AList"
begin

section \<open>JavaScript values and string primitives used by the bridge\<close>

text \<open>
  Strings are lists of code units (\<^typ>\<open>char\<close>, so code units up to 255). Numbers that
  the bridge handles are integers or \<open>NaN\<close>: channel indices, parsed status nibbles and
  brightness bytes. A fractional number used as an array index selects no element, as
  \<open>NaN\<close> does, and is not represented separately.
\<close>

datatype jsnum = Num int | NaN

text \<open>A boolean or numeric characteristic value as it travels in a hub payload.\<close>

datatype jsval = JBool bool | JNum int

definition truthy :: "jsval \<Rightarrow> bool" where
  "truthy v = (case v of JBool b \<Rightarrow> b | JNum n \<Rightarrow> n \<noteq> 0)"

text \<open>\<open>Number(v)\<close> on a boolean or a number.\<close>

definition Number_of_val :: "jsval \<Rightarrow> int" where
  "Number_of_val v = (case v of JBool b \<Rightarrow> (if b then 1 else 0) | JNum n \<Rightarrow> n)"

text \<open>The truthiness of an optional string: \<open>undefined\<close> and \<open>""\<close> are falsy.\<close>

definition truthyStr :: "string option \<Rightarrow> bool" where
  "truthyStr s = (case s of None \<Rightarrow> False | Some t \<Rightarrow> t \<noteq> [])"

text \<open>An optional string inside a template literal: \<open>undefined\<close> prints as such.\<close>

definition showStr :: "string option \<Rightarrow> string" where
  "showStr s = (case s of None \<Rightarrow> ''undefined'' | Some t \<Rightarrow> t)"

subsection \<open>Digits and radix conversion\<close>

definition digitChars :: string where
  "digitChars = ''0123456789abcdefghijklmnopqrstuvwxyz''"

text \<open>The digit of a value below 36; the bridge prints in radix 2, 10 and 16 only.\<close>

definition digitChar :: "nat \<Rightarrow> char" where
  "digitChar d = digitChars ! d"

text \<open>The value of a digit character, letters in either case counting from ten.\<close>

definition digitVal :: "char \<Rightarrow> nat option" where
  "digitVal c =
     (let n = (of_char c :: nat) in
      if 48 \<le> n \<and> n \<le> 57 then Some (n - 48)
      else if 97 \<le> n \<and> n \<le> 122 then Some (n - 87)
      else if 65 \<le> n \<and> n \<le> 90 then Some (n - 55)
      else None)"

definition isRadixDigit :: "nat \<Rightarrow> char \<Rightarrow> bool" where
  "isRadixDigit r c = (case digitVal c of None \<Rightarrow> False | Some d \<Rightarrow> d < r)"

definition radixValue :: "nat \<Rightarrow> string \<Rightarrow> nat" where
  "radixValue r ds = foldl (\<lambda>acc c. acc * r + (case digitVal c of None \<Rightarrow> 0 | Some d \<Rightarrow> d)) 0 ds"

text \<open>
  White space and line terminators that \<open>parseInt\<close>, \<open>Number\<close> and \<open>trim\<close> skip, among the
  code units up to 255: TAB, LF, VT, FF, CR, SP and NBSP.
\<close>

definition isWhiteSpace :: "char \<Rightarrow> bool" where
  "isWhiteSpace c = ((of_char c :: nat) \<in> {9, 10, 11, 12, 13, 32, 160})"

text \<open>
  \<open>parseInt(s, radix)\<close> for a radix from 2 to 36: leading white space is skipped, one sign
  is read, for radix 16 a prefix \<open>0x\<close> or \<open>0X\<close> is dropped, and the longest run of digits
  of the radix is the value; no digit gives \<open>NaN\<close>. The result is exact as long as the
  value is below \<open>2 ^ 53\<close>; the bridge parses strings of one, two and at most nine
  characters.
\<close>

definition parseInt :: "string \<Rightarrow> nat \<Rightarrow> jsnum" where
  "parseInt s radix =
     (let s1 = dropWhile isWhiteSpace s;
          neg = (s1 \<noteq> [] \<and> hd s1 = CHR ''-'');
          s2 = (if s1 \<noteq> [] \<and> (hd s1 = CHR ''+'' \<or> hd s1 = CHR ''-'') then tl s1 else s1);
          s3 = (if radix = 16 \<and> (take 2 s2 = ''0x'' \<or> take 2 s2 = ''0X'') then drop 2 s2 else s2);
          z = takeWhile (isRadixDigit radix) s3
      in if z = [] then NaN
         else Num ((if neg then - 1 else 1) * int (radixValue radix z)))"

function natToRadix :: "nat \<Rightarrow> nat \<Rightarrow> string" where
  "natToRadix r n =
     (if r < 2 \<or> n < r then [digitChar n] else natToRadix r (n div r) @ [digitChar (n mod r)])"
  by pat_completeness auto
termination
  by (relation "measure (\<lambda>(r, n). n)") auto

declare natToRadix.simps [simp del]

text \<open>\<open>x.toString(radix)\<close> of an integer or \<open>NaN\<close>.\<close>

definition toStringRadix :: "jsnum \<Rightarrow> nat \<Rightarrow> string" where
  "toStringRadix x radix =
     (case x of
        NaN \<Rightarrow> ''NaN''
      | Num n \<Rightarrow> (if n < 0 then CHR ''-'' # natToRadix radix (nat (- n))
                  else natToRadix radix (nat n)))"

text \<open>A number inside a template literal or as a property key: decimal.\<close>

definition showNum :: "jsnum \<Rightarrow> string" where
  "showNum x = toStringRadix x 10"

definition showVal :: "jsval \<Rightarrow> string" where
  "showVal v = (case v of JBool b \<Rightarrow> (if b then ''true'' else ''false'') | JNum n \<Rightarrow> showNum (Num n))"

subsection \<open>String methods\<close>

text \<open>\<open>s.padStart(n, c)\<close> with a one-character filler.\<close>

definition padStart :: "nat \<Rightarrow> char \<Rightarrow> string \<Rightarrow> string" where
  "padStart n c s = replicate (n - length s) c @ s"

text \<open>\<open>s.slice(start, end)\<close>: a negative position counts from the end.\<close>

definition slice :: "string \<Rightarrow> int \<Rightarrow> int \<Rightarrow> string" where
  "slice s start stop =
     (let len = int (length s);
          lo = (if start < 0 then max (len + start) 0 else min start len);
          hi = (if stop < 0 then max (len + stop) 0 else min stop len)
      in take (nat (hi - lo)) (drop (nat lo) s))"

text \<open>\<open>s.slice(start)\<close>, to the end of the string.\<close>

definition sliceFrom :: "string \<Rightarrow> int \<Rightarrow> string" where
  "sliceFrom s start = slice s start (int (length s))"

text \<open>\<open>s.substring(a, b)\<close> with non-negative positions: clamped and ordered.\<close>

definition substring :: "string \<Rightarrow> nat \<Rightarrow> nat \<Rightarrow> string" where
  "substring s a b =
     (let a' = min a (length s); b' = min b (length s)
      in take (max a' b' - min a' b') (drop (min a' b') s))"

text \<open>Case mapping of the ASCII letters; the bridge maps hexadecimal text and MAC addresses.\<close>

definition toUpperChar :: "char \<Rightarrow> char" where
  "toUpperChar c =
     (let n = (of_char c :: nat) in if 97 \<le> n \<and> n \<le> 122 then char_of (n - 32) else c)"

definition toLowerChar :: "char \<Rightarrow> char" where
  "toLowerChar c =
     (let n = (of_char c :: nat) in if 65 \<le> n \<and> n \<le> 90 then char_of (n + 32) else c)"

definition toUpperCase :: "string \<Rightarrow> string" where
  "toUpperCase s = map toUpperChar s"

definition toLowerCase :: "string \<Rightarrow> string" where
  "toLowerCase s = map toLowerChar s"

definition startsWith :: "string \<Rightarrow> string \<Rightarrow> bool" where
  "startsWith s p = (take (length p) s = p)"

primrec includesStr :: "string \<Rightarrow> string \<Rightarrow> bool" where
  "includesStr [] p = (p = [])"
| "includesStr (c # cs) p = (startsWith (c # cs) p \<or> includesStr cs p)"

definition trim :: "string \<Rightarrow> string" where
  "trim s = rev (dropWhile isWhiteSpace (rev (dropWhile isWhiteSpace s)))"

text \<open>\<open>s.split(sep)\<close> at a one-character separator; the empty string gives one empty part.\<close>

primrec splitAt :: "char \<Rightarrow> string \<Rightarrow> string \<Rightarrow> string list" where
  "splitAt sep acc [] = [rev acc]"
| "splitAt sep acc (c # cs) =
     (if c = sep then rev acc # splitAt sep [] cs else splitAt sep (c # acc) cs)"

definition split :: "string \<Rightarrow> char \<Rightarrow> string list" where
  "split s sep = splitAt sep [] s"

text \<open>\<open>Math.round\<close>: the nearest integer, a tie going up.\<close>

definition Math_round :: "rat \<Rightarrow> int" where
  "Math_round x = \<lfloor>x + 1 / 2\<rfloor>"

text \<open>
  \<open>s.replace(pat, rep)\<close> with a string pattern: the first occurrence only.
\<close>

primrec replaceFirst :: "string \<Rightarrow> string \<Rightarrow> string \<Rightarrow> string" where
  "replaceFirst [] pat rep = (if pat = [] then rep else [])"
| "replaceFirst (c # cs) pat rep =
     (if startsWith (c # cs) pat then rep @ drop (length pat) (c # cs)
      else c # replaceFirst cs pat rep)"

text \<open>
  \<open>Number(s)\<close> on the text that follows a button-group label: surrounding white space is
  ignored, the empty text is 0, and an optionally signed run of decimal digits is its
  value. Every other text is mapped to \<open>NaN\<close> here; numeric literals with a fraction, an
  exponent or a radix prefix are not modelled.
\<close>

definition Number_of_string :: "string \<Rightarrow> jsnum" where
  "Number_of_string s =
     (let t = trim s;
          neg = (t \<noteq> [] \<and> hd t = CHR ''-'');
          ds = (if t \<noteq> [] \<and> (hd t = CHR ''+'' \<or> hd t = CHR ''-'') then tl t else t)
      in if t = [] then Num 0
         else if ds \<noteq> [] \<and> list_all (isRadixDigit 10) ds
           then Num ((if neg then - 1 else 1) * int (radixValue 10 ds))
         else NaN)"

text \<open>Arithmetic on numbers: \<open>a - b\<close>.\<close>

definition jsMinus :: "jsnum \<Rightarrow> jsnum \<Rightarrow> jsnum" where
  "jsMinus a b = (case (a, b) of (Num x, Num y) \<Rightarrow> Num (x - y) | _ \<Rightarrow> NaN)"

subsection \<open>Arrays\<close>

text \<open>
  Reading \<open>xs[k]\<close>: an element when \<open>k\<close> is an index of the array, \<open>undefined\<close>
  (\<open>None\<close>) for a negative, too large or \<open>NaN\<close> key.
\<close>

definition arrayGet :: "'a list \<Rightarrow> jsnum \<Rightarrow> 'a option" where
  "arrayGet xs k =
     (case k of
        NaN \<Rightarrow> None
      | Num i \<Rightarrow> (if 0 \<le> i \<and> i < int (length xs) then Some (xs ! nat i) else None))"

text \<open>
  Writing \<open>xs[k] = v\<close> on an array whose elements may be holes (\<open>None\<close>): an index inside
  the array is overwritten, an index past the end grows the array and leaves holes, and a
  negative or \<open>NaN\<close> key only adds a named property, which \<open>join\<close> never sees.
\<close>

definition arraySet :: "'a option list \<Rightarrow> jsnum \<Rightarrow> 'a \<Rightarrow> 'a option list" where
  "arraySet xs k v =
     (case k of
        NaN \<Rightarrow> xs
      | Num i \<Rightarrow>
          (if i < 0 then xs
           else if nat i < length xs then xs[nat i := Some v]
           else xs @ replicate (nat i - length xs) None @ [Some v]))"

text \<open>\<open>xs.join("")\<close> of an array of natural numbers: a hole prints as nothing.\<close>

definition joinBits :: "nat option list \<Rightarrow> string" where
  "joinBits xs = concat (map (\<lambda>b. case b of None \<Rightarrow> [] | Some n \<Rightarrow> showNum (Num (int n))) xs)"

section \<open>The device registry (DeviceService)\<close>

datatype DeviceType = SWITCH | DIMMING

text \<open>
  The interface \<open>Device\<close>. Its fields \<open>id\<close>, \<open>name\<close> and \<open>type\<close> are \<open>devId\<close>, \<open>devName\<close> and
  \<open>devType\<close> here. The interface declares \<open>macAddress\<close> a string; the field is optional
  in the model because the registry builder can store \<open>undefined\<close> in it.
\<close>

record Device =
  devId :: string
  guid :: string
  devName :: "string option"
  devType :: DeviceType
  index :: jsnum
  macAddress :: "string option"
  roomName :: "string option"
  gatewayId :: string

text \<open>
  The field \<open>devices\<close> of a \<open>DeviceService\<close>: an object used as a dictionary from id to
  device. Its keys are never array indices (each contains a dash after a non-empty module
  id), so its values are enumerated in insertion order: an association list with distinct
  keys, extended at the end. A lookup by a name that is a property of \<open>Object.prototype\<close>
  finds an object that is no device; such names are outside the model.
\<close>

type_synonym DeviceService = "(string \<times> Device) list"

subsection \<open>The cloud snapshot\<close>

text \<open>
  The response of \<open>afterLogin\<close> is untyped in the source. The model reads the fields the
  builder uses, each a string or absent: \<open>profile.profile_device[]\<close> with \<open>device\<close> and
  \<open>gateway\<close>, the values of \<open>device\<close> with \<open>name\<close> and \<open>mac_address\<close>, and
  \<open>profile.profile_subdevice[]\<close>.
\<close>

record profile_device =
  pd_device :: "string option"
  pd_gateway :: "string option"

record device_data =
  dd_name :: "string option"
  dd_mac_address :: "string option"

record profile_subdevice =
  device_button_group :: "string option"
  sd_device :: "string option"
  title :: "string option"
  room_name :: "string option"

record afterLoginResp =
  profile_devices :: "profile_device list"
  device_values :: "device_data list"
  profile_subdevices :: "profile_subdevice list"

text \<open>
  An entry of the local dictionary \<open>deviceInfo\<close>. An entry is only ever created with a
  gateway, so \<open>gateway\<close> is a string; \<open>infoMacAddress\<close> stays absent until a device record
  supplies it. Module ids that name a property of \<open>Object.prototype\<close> are outside the model.
\<close>

record device_info =
  gateway :: string
  infoMacAddress :: "string option"

definition gatewayStep :: "profile_device \<Rightarrow> (string \<times> device_info) list \<Rightarrow> (string \<times> device_info) list" where
  "gatewayStep profileDevice deviceInfo =
     (case (pd_device profileDevice, pd_gateway profileDevice) of
        (Some d, Some g) \<Rightarrow>
          (if d = [] \<or> g = [] then deviceInfo
           else AList.update d \<lparr>gateway = g, infoMacAddress = None\<rparr> deviceInfo)
      | _ \<Rightarrow> deviceInfo)"

definition macStep :: "device_data \<Rightarrow> (string \<times> device_info) list \<Rightarrow> (string \<times> device_info) list" where
  "macStep deviceData deviceInfo =
     (case (dd_name deviceData, dd_mac_address deviceData) of
        (Some n, Some m) \<Rightarrow>
          (if n = [] \<or> m = [] then deviceInfo
           else (case map_of deviceInfo n of
                   None \<Rightarrow> deviceInfo
                 | Some info \<Rightarrow>
                     (if gateway info = [] then deviceInfo
                      else AList.update n (info\<lparr>infoMacAddress := Some (toLowerCase m)\<rparr>) deviceInfo)))
      | _ \<Rightarrow> deviceInfo)"

text \<open>The regular expression \<open>/\[\/?en\]/g\<close> replaced by nothing: every \<open>[en]\<close> and \<open>[/en]\<close> goes.\<close>

function removeEnTags :: "string \<Rightarrow> string" where
  "removeEnTags s =
     (if s = [] then []
      else if startsWith s ''[en]'' then removeEnTags (drop 4 s)
      else if startsWith s ''[/en]'' then removeEnTags (drop 5 s)
      else hd s # removeEnTags (tl s))"
  by pat_completeness auto
termination
  by (relation "measure length") auto

declare removeEnTags.simps [simp del]

definition cleanRoomName :: "string option \<Rightarrow> string option" where
  "cleanRoomName room =
     (case room of
        None \<Rightarrow> None
      | Some r \<Rightarrow> (if r = [] then Some r else Some (trim (removeEnTags r))))"

text \<open>
  One turn of the loop over \<open>profile_subdevice\<close>, the body of its \<open>try\<close> with every
  \<open>continue\<close> returning the registry as it is. In the branch for dimmers the lookup
  \<open>deviceInfo[device]!.macAddress!\<close> throws when the module has no entry; the \<open>catch\<close> then
  warns and continues, so that record is not stored. When the entry exists the device is
  stored with whatever the entry holds. The warnings the builder logs are not part of the
  value it returns and are left out.
\<close>

definition subdeviceStep ::
  "(string \<times> device_info) list \<Rightarrow> profile_subdevice \<Rightarrow> DeviceService \<Rightarrow> DeviceService" where
  "subdeviceStep deviceInfo profileSubdevice devices =
     (case device_button_group profileSubdevice of
        None \<Rightarrow> devices
      | Some grp \<Rightarrow>
        if grp = [] then devices
        else if startsWith grp ''ONOFF GANG'' then
          (let name = title profileSubdevice in
           if (case name of None \<Rightarrow> False
               | Some n \<Rightarrow> n \<noteq> [] \<and> (includesStr n ''V1'' \<or> includesStr n ''V2''))
           then devices
           else
             (let idx = Number_of_string (replaceFirst grp ''ONOFF GANG'' []);
                  ident = showStr (sd_device profileSubdevice) @ ''-'' @ showNum idx
              in if map_of devices ident \<noteq> None then devices
                 else (case sd_device profileSubdevice of
                         None \<Rightarrow> devices
                       | Some g \<Rightarrow>
                           if g = [] then devices
                           else (case map_of deviceInfo g of
                                   None \<Rightarrow> devices
                                 | Some info \<Rightarrow>
                                     if \<not> truthyStr (infoMacAddress info) \<or> gateway info = []
                                     then devices
                                     else AList.update ident
                                       \<lparr>devId = ident, guid = g, devName = name,
                                        devType = SWITCH, index = idx,
                                        macAddress = infoMacAddress info,
                                        roomName = cleanRoomName (room_name profileSubdevice),
                                        gatewayId = gateway info\<rparr> devices))))
        else if startsWith grp ''DIMMING'' then
          (let idx = Num 0;
               ident = showStr (sd_device profileSubdevice) @ ''-'' @ showNum idx
           in if map_of devices ident \<noteq> None then devices
              else (case sd_device profileSubdevice of
                      None \<Rightarrow> devices
                    | Some g \<Rightarrow>
                        if g = [] then devices
                        else (case map_of deviceInfo g of
                                None \<Rightarrow> devices
                              | Some info \<Rightarrow>
                                  AList.update ident
                                    \<lparr>devId = ident, guid = g, devName = title profileSubdevice,
                                     devType = DIMMING, index = idx,
                                     macAddress = infoMacAddress info,
                                     roomName = cleanRoomName (room_name profileSubdevice),
                                     gatewayId = gateway info\<rparr> devices)))
        else devices)"

definition fromAfterLoginResp :: "afterLoginResp \<Rightarrow> DeviceService" where
  "fromAfterLoginResp data =
     (let deviceInfo = fold gatewayStep (profile_devices data) [];
          deviceInfo = fold macStep (device_values data) deviceInfo
      in fold (subdeviceStep deviceInfo) (profile_subdevices data) [])"

definition getByMacAddress :: "DeviceService \<Rightarrow> string \<Rightarrow> Device list" where
  "getByMacAddress this mac = filter (\<lambda>device. macAddress device = Some mac) (map snd this)"

definition getByName :: "DeviceService \<Rightarrow> string \<Rightarrow> Device option" where
  "getByName this name = map_of this name"

section \<open>The bridge: state, outputs and errors\<close>

datatype LogLevel = DEBUG | INFO | WARN | ERROR

text \<open>
  A logger call is recorded as the module of its logger, the level and the message (the
  first argument of the call, with its template filled in); further arguments of a call
  and the timestamp are not recorded. The callbacks given to \<open>publish\<close> run when the
  broker has delivered and only log; they are not modelled.
\<close>

type_synonym log_entry = "string \<times> LogLevel \<times> string"

text \<open>
  The object literal that a hub publish serialises with \<open>JSON.stringify\<close>, before it is
  serialised: a discovery payload \<open>{name, service_name, service, ...additionalProperties}\<close>
  or a status payload \<open>{name, service_name, characteristic, value}\<close>.
\<close>

datatype hub_payload =
    AddPayload (add_name: string) (add_service_name: string) (add_service: string)
      (add_properties: "(string \<times> string) list")
  | SetPayload (set_name: string) (set_service_name: string) (set_characteristic: string)
      (set_value: jsval)

text \<open>The packet handed to \<open>aedes.publish\<close>.\<close>

record packet =
  topic :: string
  payload :: hub_payload
  qos :: nat
  retain :: bool
  dup :: bool
  cmd :: string

text \<open>The command object handed to \<open>mqttService.publish\<close>, with its topic.\<close>

record ble_write =
  action :: string
  write_guid :: string
  mac_address :: string
  service_id :: string
  char_id :: string
  write_value :: string

record cloud_command =
  cloud_topic :: string
  command :: string
  function_name :: string
  params :: "ble_write list"
  callback :: string
  raw :: string

text \<open>
  The state the handlers share: the service locator (\<open>service.deviceService\<close> and
  \<open>service.mqttService\<close>, each possibly \<open>null\<close>; a present MQTT service is the list of
  commands handed to it so far), the broker's topic prefix, its replay cache (a \<open>Map\<close>,
  which keeps insertion order and overwrites in place), the packets handed to
  \<open>aedes.publish\<close> and the log.
\<close>

record bridge =
  deviceService :: "DeviceService option"
  mqttService :: "cloud_command list option"
  topicPrefix :: string
  bleDeviceCache :: "(string \<times> string) list"
  published :: "packet list"
  logged :: "log_entry list"

text \<open>
  What a handler can throw: an \<open>Error\<close> of the bridge with its message, or a \<open>TypeError\<close>
  or \<open>SyntaxError\<close> of the runtime, whose message is the engine's and is not recorded.
\<close>

datatype js_error = Error string | TypeError | SyntaxError

definition logger :: "string \<Rightarrow> LogLevel \<Rightarrow> string \<Rightarrow> bridge \<Rightarrow> bridge" where
  "logger origin level message st = st\<lparr>logged := logged st @ [(origin, level, message)]\<rparr>"

definition aedes_publish :: "packet \<Rightarrow> bridge \<Rightarrow> bridge" where
  "aedes_publish p st = st\<lparr>published := published st @ [p]\<rparr>"

text \<open>\<open>service.mqttService?.publish(topic, data)\<close>: nothing when the service is \<open>null\<close>.\<close>

definition mqtt_publish :: "cloud_command \<Rightarrow> bridge \<Rightarrow> bridge" where
  "mqtt_publish c st =
     (case mqttService st of
        None \<Rightarrow> st
      | Some sent \<Rightarrow> st\<lparr>mqttService := Some (sent @ [c])\<rparr>)"

section \<open>The command encoder (DeviceService.switchDevice, dimmingDevice)\<close>

text \<open>\<open>macAddress.split(":").reverse().join("")\<close>.\<close>

definition reversedMac :: "string \<Rightarrow> string" where
  "reversedMac mac = concat (rev (split mac CHR '':''))"

text \<open>
  The data byte of a switch command: \<open>Array(8).fill(0)\<close>, two writes, and the field read
  as a binary numeral and printed as two upper-case hexadecimal digits. The value is
  exact while the field is shorter than 54 places.
\<close>

definition switchBits :: "jsnum \<Rightarrow> bool \<Rightarrow> nat option list" where
  "switchBits position isOn =
     (let bits = replicate 8 (Some 0);
          bits = arraySet bits (jsMinus (Num 4) position) 1
      in if isOn then arraySet bits (jsMinus (Num 8) position) 1 else bits)"

definition switchData :: "jsnum \<Rightarrow> bool \<Rightarrow> string" where
  "switchData position isOn =
     padStart 2 CHR ''0'' (toUpperCase (toStringRadix (parseInt (joinBits (switchBits position isOn)) 2) 16))"

text \<open>
  The scaling \<open>Math.round((brightness / 100) * 255)\<close>. The source computes it in double
  precision; for every integer brightness from -1000 to 6409 the double result is the
  exact one, which is what the model computes.
\<close>

definition scaledBrightness :: "int \<Rightarrow> int" where
  "scaledBrightness brightness = Math_round ((of_int brightness / 100) * 255)"

definition dimmingData :: "int \<Rightarrow> string" where
  "dimmingData brightness =
     toUpperCase (padStart 2 CHR ''0'' (toStringRadix (Num (scaledBrightness brightness)) 16))"

definition performWrite :: "string \<Rightarrow> Device \<Rightarrow> string \<Rightarrow> string \<Rightarrow> cloud_command" where
  "performWrite t device mac v =
     \<lparr>cloud_topic = t, command = ''Control'', function_name = ''bleHelper.perform'',
      params = [\<lparr>action = ''write'', write_guid = guid device, mac_address = mac,
                 service_id = ''ff80'', char_id = ''ff81'', write_value = v\<rparr>],
      callback = [], raw = []\<rparr>"

text \<open>
  Both methods are asynchronous and may throw: the result is the error thrown, if any,
  and the state reached. \<open>md5\<close> is the digest of \<open>utils.ts\<close>, a parameter here. A device
  whose \<open>macAddress\<close> is \<open>undefined\<close> makes \<open>macAddress.split\<close> throw a \<open>TypeError\<close>.
\<close>

definition switchDevice ::
  "(string \<Rightarrow> string) \<Rightarrow> DeviceService \<Rightarrow> string \<Rightarrow> bool \<Rightarrow> bridge \<Rightarrow> js_error option \<times> bridge" where
  "switchDevice md5 this ident on st =
     (let st = logger ''DeviceService'' DEBUG
                 (''Switching device '' @ ident @ '' to '' @ (if on then ''ON'' else ''OFF'')) st
      in case map_of this ident of
           None \<Rightarrow> (Some (Error (''Device with id '' @ ident @ '' not found'')), st)
         | Some device \<Rightarrow>
             if devType device \<noteq> SWITCH
             then (Some (Error (''Device with id '' @ ident @ '' is not a switch'')), st)
             else
               (let data = switchData (index device) on
                in case macAddress device of
                     None \<Rightarrow> (Some TypeError, st)
                   | Some mac \<Rightarrow>
                       (let v = ''02'' @ reversedMac mac @ ''8000'' @ data @ ''00'';
                            t = ''cmd/'' @ md5 (md5 (gatewayId device));
                            st = logger ''DeviceService'' DEBUG
                                   (''Publishing MQTT command to topic: '' @ t) st
                        in (None, mqtt_publish (performWrite t device mac v) st))))"

definition dimmingDevice ::
  "(string \<Rightarrow> string) \<Rightarrow> DeviceService \<Rightarrow> string \<Rightarrow> int \<Rightarrow> bridge \<Rightarrow> js_error option \<times> bridge" where
  "dimmingDevice md5 this ident brightness st =
     (let st = logger ''DeviceService'' DEBUG
                 (''Dimming device '' @ ident @ '' to brightness '' @ showNum (Num brightness)) st
      in case map_of this ident of
           None \<Rightarrow> (Some (Error (''Device with id '' @ ident @ '' not found'')), st)
         | Some device \<Rightarrow>
             if devType device \<noteq> DIMMING
             then (Some (Error (''Device with id '' @ ident @ '' is not a dimming device'')), st)
             else
               (let data = dimmingData brightness
                in case macAddress device of
                     None \<Rightarrow> (Some TypeError, st)
                   | Some mac \<Rightarrow>
                       (let v = ''02'' @ reversedMac mac @ ''8900'' @ data;
                            t = ''cmd/'' @ md5 (md5 (gatewayId device));
                            st = logger ''DeviceService'' DEBUG
                                   (''Publishing MQTT command to topic: '' @ t) st
                        in (None, mqtt_publish (performWrite t device mac v) st))))"

section \<open>The bridge broker (AedesService)\<close>

text \<open>\<open>device.name || "Unnamed Device"\<close>, followed by the room in brackets when there is one.\<close>

definition serviceName :: "Device \<Rightarrow> string" where
  "serviceName device =
     (let service_name = (case devName device of
                            None \<Rightarrow> ''Unnamed Device''
                          | Some n \<Rightarrow> (if n = [] then ''Unnamed Device'' else n))
      in case roomName device of
           None \<Rightarrow> service_name
         | Some r \<Rightarrow> (if r = [] then service_name else service_name @ '' ('' @ r @ '')''))"

subsection \<open>Hub discovery\<close>

definition addDevice :: "Device \<Rightarrow> string \<Rightarrow> (string \<times> string) list \<Rightarrow> bridge \<Rightarrow> bridge" where
  "addDevice device service additionalProperties st =
     aedes_publish
       \<lparr>topic = topicPrefix st @ ''/to/add'',
        payload = AddPayload (devId device) (serviceName device) service additionalProperties,
        qos = 1, retain = False, dup = False, cmd = ''publish''\<rparr> st"

definition publishDeviceAddition :: "Device \<Rightarrow> bridge \<Rightarrow> bridge" where
  "publishDeviceAddition device st =
     (case devType device of
        SWITCH \<Rightarrow> addDevice device ''Lightbulb'' [] st
      | DIMMING \<Rightarrow> addDevice device ''Lightbulb'' [(''Brightness'', ''default'')] st)"

subsection \<open>The BLE status decoder\<close>

definition setCharacteristic :: "Device \<Rightarrow> string \<Rightarrow> jsval \<Rightarrow> bridge \<Rightarrow> bridge" where
  "setCharacteristic device characteristic v st =
     aedes_publish
       \<lparr>topic = topicPrefix st @ ''/to/set'',
        payload = SetPayload (devId device) (serviceName device) characteristic v,
        qos = 1, retain = False, dup = False, cmd = ''publish''\<rparr> st"

text \<open>
  The array \<open>lightStates\<close>: the status character parsed in radix 16, printed in radix 2,
  padded to four places, without its last place, split into characters and reversed.
  Each element is a one-character string in the source and a character here.
\<close>

definition lightStates :: "string \<Rightarrow> string" where
  "lightStates data =
     (let status = sliceFrom data (- 1);
          statusInt = parseInt status 16
      in rev (slice (padStart 4 CHR ''0'' (toStringRadix statusInt 2)) 0 (- 1)))"

definition handleSwitchBLEData :: "Device \<Rightarrow> string \<Rightarrow> bridge \<Rightarrow> bridge" where
  "handleSwitchBLEData device data st =
     (let st = logger ''AedesService'' DEBUG
                 (''Handling Switch BLE data for device '' @ devId device @ '': '' @ data) st
      in if devType device \<noteq> SWITCH
         then logger ''AedesService'' ERROR
                (''Device '' @ devId device @ '' is not a switch device'') st
         else (case arrayGet (lightStates data) (jsMinus (index device) (Num 1)) of
                 None \<Rightarrow>
                   logger ''AedesService'' WARN
                     (''No status found for device index '' @ showNum (index device)
                        @ '' (MAC: '' @ showStr (macAddress device) @ '')'') st
               | Some isOn \<Rightarrow> setCharacteristic device ''On'' (JBool (isOn = CHR ''1'')) st))"

text \<open>
  The scaling \<open>Math.round((brightness / 255) * 100)\<close> of the decoder. As for the encoder,
  the double result is the exact one for every integer a two-character text can parse to.
\<close>

definition brightnessPercent :: "int \<Rightarrow> int" where
  "brightnessPercent brightness = Math_round ((of_int brightness / 255) * 100)"

definition handleDimmingBLEData :: "Device \<Rightarrow> string \<Rightarrow> bridge \<Rightarrow> bridge" where
  "handleDimmingBLEData device data st =
     (let st = logger ''AedesService'' DEBUG
                 (''Handling Dimming BLE data for device '' @ devId device @ '': '' @ data) st
      in if length data < 6
         then logger ''AedesService'' WARN (''BLE data too short for dimming: '' @ data) st
         else
           (let brightnessHex = substring data 4 6
            in case parseInt brightnessHex 16 of
                 NaN \<Rightarrow>
                   logger ''AedesService'' WARN
                     (''Invalid brightness hex in BLE data: '' @ brightnessHex) st
               | Num b \<Rightarrow>
                   (let brightness = brightnessPercent b;
                        st = setCharacteristic device ''Brightness'' (JNum brightness) st
                    in setCharacteristic device ''On'' (JBool (brightness > 0)) st)))"

definition dispatchBleData :: "string \<Rightarrow> Device \<Rightarrow> bridge \<Rightarrow> bridge" where
  "dispatchBleData data device st =
     (case devType device of
        SWITCH \<Rightarrow> handleSwitchBLEData device data st
      | DIMMING \<Rightarrow> handleDimmingBLEData device data st)"

definition handleBleDeviceData :: "string \<Rightarrow> string \<Rightarrow> bridge \<Rightarrow> bridge" where
  "handleBleDeviceData mac data st =
     (case deviceService st of
        None \<Rightarrow> logger ''AedesService'' ERROR ''Device service not available'' st
      | Some ds \<Rightarrow>
          (let devices = getByMacAddress ds mac
           in if length devices = 0
              then logger ''AedesService'' DEBUG (''No devices found for MAC address: '' @ mac) st
              else fold (dispatchBleData data) devices st))"

definition extractAndCacheBleDeviceMessage :: "string \<Rightarrow> bridge \<Rightarrow> bridge" where
  "extractAndCacheBleDeviceMessage payloadString st =
     (let mac = slice payloadString 0 17;
          data = sliceFrom payloadString 17;
          st = st\<lparr>bleDeviceCache := AList.update mac data (bleDeviceCache st)\<rparr>;
          st = logger ''AedesService'' DEBUG
                 (''Cached BLE device data: MAC='' @ mac @ '', Data='' @ data) st
      in handleBleDeviceData mac data st)"

subsection \<open>Hub commands\<close>

text \<open>
  The payload of a hub command as the interface \<open>HomebridgeSetPayload\<close> declares it, with
  a value that is a boolean or a number. Its fields \<open>name\<close>, \<open>value\<close> and \<open>characteristic\<close>
  carry the prefix \<open>payload\<close>.
\<close>

record HomebridgeSetPayload =
  payloadName :: string
  payloadValue :: jsval
  payloadCharacteristic :: string

text \<open>\<open>try { body } catch (error) { handler }\<close> around a body that may throw.\<close>

definition tryCatch ::
  "(bridge \<Rightarrow> js_error option \<times> bridge) \<Rightarrow> (js_error \<Rightarrow> bridge \<Rightarrow> bridge) \<Rightarrow> bridge
     \<Rightarrow> js_error option \<times> bridge" where
  "tryCatch body handler st =
     (case body st of
        (None, st') \<Rightarrow> (None, st')
      | (Some e, st') \<Rightarrow> (None, handler e st'))"

text \<open>
  The handler of a hub command. \<open>md5\<close> is passed on to the encoder. Each call of the
  encoder goes through \<open>service.deviceService?.\<close>, which does nothing on \<open>null\<close>.
\<close>

definition handleHomebridgeSetMessage ::
  "(string \<Rightarrow> string) \<Rightarrow> HomebridgeSetPayload \<Rightarrow> bridge \<Rightarrow> js_error option \<times> bridge" where
  "handleHomebridgeSetMessage md5 p st =
     (case (case deviceService st of None \<Rightarrow> None | Some ds \<Rightarrow> getByName ds (payloadName p)) of
        None \<Rightarrow>
          (None, logger ''AedesService'' ERROR
                   (''Device with name '' @ payloadName p @ '' not found'') st)
      | Some device \<Rightarrow>
          if payloadCharacteristic p = ''On'' then
            (if devType device \<noteq> SWITCH \<and> devType device \<noteq> DIMMING
             then (None, logger ''AedesService'' ERROR
                           (''Device '' @ payloadName p @ '' is not a switch or dimming device'') st)
             else tryCatch
                    (\<lambda>st. if devType device = SWITCH then
                            (let st = logger ''AedesService'' INFO
                                        (''Setting device '' @ payloadName p @ '' to value: ''
                                           @ showVal (payloadValue p)) st
                             in case deviceService st of
                                  None \<Rightarrow> (None, st)
                                | Some ds \<Rightarrow>
                                    switchDevice md5 ds (payloadName p) (truthy (payloadValue p)) st)
                          else
                            (let brightness = (if truthy (payloadValue p) then 100 else 0);
                                 st = logger ''AedesService'' INFO
                                        (''Setting device '' @ payloadName p @ '' to brightness: ''
                                           @ showNum (Num brightness)) st
                             in case deviceService st of
                                  None \<Rightarrow> (None, st)
                                | Some ds \<Rightarrow> dimmingDevice md5 ds (payloadName p) brightness st))
                    (\<lambda>error st. logger ''AedesService'' ERROR
                                   (''Failed to switch device '' @ payloadName p @ '':'') st)
                    st)
          else if payloadCharacteristic p = ''Brightness'' then
            (if devType device \<noteq> DIMMING
             then (None, logger ''AedesService'' ERROR
                           (''Device '' @ payloadName p @ '' is not a dimming device'') st)
             else
               (let st = logger ''AedesService'' INFO
                           (''Setting dimming device '' @ payloadName p @ '' to brightness: ''
                              @ showVal (payloadValue p)) st
                in tryCatch
                     (\<lambda>st. case deviceService st of
                              None \<Rightarrow> (None, st)
                            | Some ds \<Rightarrow>
                                dimmingDevice md5 ds (payloadName p) (Number_of_val (payloadValue p)) st)
                     (\<lambda>error st. logger ''AedesService'' ERROR
                                    (''Failed to dim device '' @ payloadName p @ '':'') st)
                     st))
          else (None, logger ''AedesService'' WARN ''Unknown characteristic:'' st))"

subsection \<open>Broker events\<close>

text \<open>
  A publish event. \<open>JSON_parse\<close> stands for \<open>JSON.parse\<close> followed by the reading of the
  result at the declared payload type: it throws on a text that is not JSON (\<open>Inl\<close>) and
  yields a payload otherwise. The parse is outside every \<open>try\<close>, so what it throws leaves
  \<open>handlePublish\<close>, and the second test of the topic is not reached.
\<close>

definition handlePublish ::
  "(string \<Rightarrow> js_error + HomebridgeSetPayload) \<Rightarrow> (string \<Rightarrow> string) \<Rightarrow> string \<Rightarrow> string
     \<Rightarrow> string \<Rightarrow> bridge \<Rightarrow> js_error option \<times> bridge" where
  "handlePublish JSON_parse md5 packetTopic packetPayload clientId st =
     (let st = logger ''AedesService'' DEBUG
                 (''Message from client '' @ clientId @ '': Topic='' @ packetTopic
                    @ '' Payload='' @ packetPayload) st
      in case (if packetTopic = topicPrefix st @ ''/from/set''
               then (case JSON_parse packetPayload of
                       Inl e \<Rightarrow> (Some e, st)
                     | Inr p \<Rightarrow> handleHomebridgeSetMessage md5 p st)
               else (None, st)) of
           (Some e, st') \<Rightarrow> (Some e, st')
         | (None, st') \<Rightarrow>
             (if packetTopic = ''yoswit/ble/devices''
              then (None, extractAndCacheBleDeviceMessage packetPayload st')
              else (None, st')))"

text \<open>A subscribe event, for one subscription of a client.\<close>

definition handleSubscription :: "string \<Rightarrow> string \<Rightarrow> bridge \<Rightarrow> bridge" where
  "handleSubscription subscriptionTopic clientId st =
     (let st = logger ''AedesService'' INFO
                 (''Client '' @ clientId @ '' subscribed to topic: '' @ subscriptionTopic) st
      in if subscriptionTopic \<noteq> topicPrefix st @ ''/to/#'' then st
         else
           (let devices = (case deviceService st of None \<Rightarrow> [] | Some ds \<Rightarrow> map snd ds);
                st = fold publishDeviceAddition devices st;
                st = logger ''AedesService'' INFO
                       (''Replaying cached BLE device data for client '' @ clientId) st
            in fold (\<lambda>(mac, data). handleBleDeviceData mac data) (bleDeviceCache st) st))"

section \<open>Auxiliary notions for the statements\<close>

subsection \<open>Handlers that only publish and log\<close>

text \<open>
  What a decoder and the discovery read of a state: the registry and the topic prefix.
  \<open>blank st\<close> keeps these two and has nothing cached, published or logged and no MQTT
  service; the packets that a handler publishes from \<open>blank st\<close> are the packets it adds
  when it runs from \<open>st\<close>.
\<close>

definition blank :: "bridge \<Rightarrow> bridge" where
  "blank st =
     \<lparr>deviceService = deviceService st, mqttService = None, topicPrefix = topicPrefix st,
      bleDeviceCache = [], published = [], logged = []\<rparr>"

text \<open>
  A handler is \<^emph>\<open>appending\<close> when it reads only the registry and the prefix, writes only
  the list of published packets and the log, and only extends the former.
\<close>

definition appending :: "(bridge \<Rightarrow> bridge) \<Rightarrow> bool" where
  "appending h =
     (\<forall>st. blank (h st) = blank st
         \<and> bleDeviceCache (h st) = bleDeviceCache st
         \<and> mqttService (h st) = mqttService st
         \<and> published (h st) = published st @ published (h (blank st)))"

subsection \<open>What the builder guarantees\<close>

text \<open>
  Every entry of \<open>deviceInfo\<close> has a gateway. An entry of the registry is in order when
  its key is the id of its device, the id is the module id, a dash and the index, module
  id and gateway id are non-empty, a dimmer has index 0, and a switch has a non-empty
  MAC address. Nothing is said here of the MAC address of a dimmer.
\<close>

definition infoOk :: "(string \<times> device_info) list \<Rightarrow> bool" where
  "infoOk deviceInfo = list_all (\<lambda>(k, info). gateway info \<noteq> []) deviceInfo"

definition entryOk :: "string \<times> Device \<Rightarrow> bool" where
  "entryOk e =
     (case e of (k, d) \<Rightarrow>
        devId d = k \<and> k = guid d @ ''-'' @ showNum (index d) \<and> guid d \<noteq> [] \<and> gatewayId d \<noteq> []
        \<and> (case devType d of
              SWITCH \<Rightarrow> (case macAddress d of None \<Rightarrow> False | Some m \<Rightarrow> m \<noteq> [])
            | DIMMING \<Rightarrow> index d = Num 0))"

definition registryOk :: "DeviceService \<Rightarrow> bool" where
  "registryOk devices = (distinct (map fst devices) \<and> list_all entryOk devices)"

subsection \<open>An example installation\<close>

text \<open>
  One switch module with a single gang and one dimmer behind the same gateway, a bridge
  that has seen no traffic, and stand-ins for the two functions the handlers take as
  parameters: a digest, and a parser that rejects the empty text, as \<open>JSON.parse\<close> does.
  The examples hand the parser no other text; what it answers there plays no part.
\<close>

definition kitchenSwitch :: Device where
  "kitchenSwitch =
     \<lparr>devId = ''M1-1'', guid = ''M1'', devName = Some ''Kitchen'', devType = SWITCH,
      index = Num 1, macAddress = Some ''aa:bb:cc:dd:ee:ff'', roomName = None,
      gatewayId = ''G1''\<rparr>"

definition hallDimmer :: Device where
  "hallDimmer =
     \<lparr>devId = ''M2-0'', guid = ''M2'', devName = Some ''Lamp'', devType = DIMMING,
      index = Num 0, macAddress = Some ''11:22:33:44:55:66'', roomName = Some ''Hall'',
      gatewayId = ''G1''\<rparr>"

definition exampleRegistry :: DeviceService where
  "exampleRegistry = [(''M1-1'', kitchenSwitch), (''M2-0'', hallDimmer)]"

definition exampleBridge :: bridge where
  "exampleBridge =
     \<lparr>deviceService = Some exampleRegistry, mqttService = Some [], topicPrefix = ''homebridge'',
      bleDeviceCache = [], published = [], logged = []\<rparr>"

definition exampleDigest :: "string \<Rightarrow> string" where
  "exampleDigest s = ''h('' @ s @ '')''"

definition exampleParse :: "string \<Rightarrow> js_error + HomebridgeSetPayload" where
  "exampleParse s =
     (if s = [] then Inl SyntaxError
      else Inr \<lparr>payloadName = s, payloadValue = JBool True, payloadCharacteristic = ''On''\<rparr>)"

text \<open>
  A snapshot in which the module \<open>M1\<close> of a dimmer is associated with a gateway and has no
  device record, hence no MAC address.
\<close>

definition dimmerWithoutMac :: afterLoginResp where
  "dimmerWithoutMac =
     \<lparr>profile_devices = [\<lparr>pd_device = Some ''M1'', pd_gateway = Some ''G1''\<rparr>],
      device_values = [],
      profile_subdevices =
        [\<lparr>device_button_group = Some ''DIMMING'', sd_device = Some ''M1'',
          title = Some ''Lamp'', room_name = None\<rparr>]\<rparr>"

text \<open>
  A snapshot whose only subdevice carries the label \<open>ONOFF GANG5\<close>, and the device the
  builder makes of it: a switch with index 5.
\<close>

definition fiveGangSnapshot :: afterLoginResp where
  "fiveGangSnapshot =
     \<lparr>profile_devices = [\<lparr>pd_device = Some ''M1'', pd_gateway = Some ''G1''\<rparr>],
      device_values = [\<lparr>dd_name = Some ''M1'', dd_mac_address = Some ''AA:BB:CC:DD:EE:FF''\<rparr>],
      profile_subdevices =
        [\<lparr>device_button_group = Some ''ONOFF GANG5'', sd_device = Some ''M1'',
          title = Some ''Porch'', room_name = None\<rparr>]\<rparr>"

definition fifthGang :: Device where
  "fifthGang =
     \<lparr>devId = ''M1-5'', guid = ''M1'', devName = Some ''Porch'', devType = SWITCH,
      index = Num 5, macAddress = Some ''aa:bb:cc:dd:ee:ff'', roomName = None,
      gatewayId = ''G1''\<rparr>"

text \<open>The example bridge after two status frames, one per module, have been cached.\<close>

definition cachedBridge :: bridge where
  "cachedBridge =
     exampleBridge\<lparr>bleDeviceCache :=
       [(''11:22:33:44:55:66'', ''00007F02''), (''aa:bb:cc:dd:ee:ff'', ''00004002'')]\<rparr>"

section \<open>Numbers and characters: auxiliary facts\<close>

lemma scaledBrightness_div: "scaledBrightness b = (51 * b + 10) div 20"
proof -
  have "(of_int b / 100) * 255 + 1 / 2 = (of_int (51 * b + 10) :: rat) / of_int 20"
    by (simp add: field_simps)
  then show ?thesis
    unfolding scaledBrightness_def Math_round_def
    by (simp only: floor_divide_of_int_eq)
qed

lemma brightnessPercent_div: "brightnessPercent v = (40 * v + 51) div 102"
proof -
  have "(of_int v / 255) * 100 + 1 / 2 = (of_int (40 * v + 51) :: rat) / of_int 102"
    by (simp add: field_simps)
  then show ?thesis
    unfolding brightnessPercent_def Math_round_def
    by (simp only: floor_divide_of_int_eq)
qed

lemma percent_of_scaled: "brightnessPercent (scaledBrightness b) = b"
proof -
  define r where "r = (51 * b + 10) mod 20"
  define v where "v = (51 * b + 10) div 20"
  have v: "20 * v = 51 * b + 10 - r"
    unfolding r_def v_def by (simp add: minus_mod_eq_mult_div [symmetric])
  have r: "0 \<le> r" "r < 20" unfolding r_def by simp_all
  have "(40 * v + 51) div 102 = b"
  proof (rule int_div_pos_eq)
    show "40 * v + 51 = 102 * b + (40 * v + 51 - 102 * b)" by simp
    show "0 \<le> 40 * v + 51 - 102 * b" using v r by linarith
    show "40 * v + 51 - 102 * b < 102" using v r by linarith
  qed
  then show ?thesis
    unfolding scaledBrightness_div brightnessPercent_div v_def .
qed

lemma digitVal_not_space: "digitVal c = Some v \<Longrightarrow> \<not> isWhiteSpace c"
  by (auto simp: digitVal_def isWhiteSpace_def Let_def split: if_splits)

lemma digitVal_not_sign: "digitVal c = Some v \<Longrightarrow> c \<noteq> CHR ''+'' \<and> c \<noteq> CHR ''-''"
  by (auto simp: digitVal_def Let_def split: if_splits)

lemma parseInt_hex_digit:
  assumes "digitVal c = Some v" and "v < 16"
  shows "parseInt [c] 16 = Num (int v)"
  using assms digitVal_not_space[OF assms(1)] digitVal_not_sign[OF assms(1)]
  by (simp add: parseInt_def isRadixDigit_def radixValue_def)

lemma sliceFrom_last: "data \<noteq> [] \<Longrightarrow> sliceFrom data (- 1) = [last data]"
  by (cases data rule: rev_cases) (auto simp: sliceFrom_def slice_def Let_def)

lemma slice_drops_last: "length s = 4 \<Longrightarrow> slice s 0 (- 1) = butlast s"
  by (simp add: slice_def Let_def butlast_conv_take)

lemma binary_nibble:
  assumes "v < 16"
  shows "padStart 4 CHR ''0'' (toStringRadix (Num (int v)) 2)
          = [if bit v 3 then CHR ''1'' else CHR ''0'', if bit v 2 then CHR ''1'' else CHR ''0'',
             if bit v 1 then CHR ''1'' else CHR ''0'', if bit v 0 then CHR ''1'' else CHR ''0'']"
proof -
  from assms have "v = 0 \<or> v = 1 \<or> v = 2 \<or> v = 3 \<or> v = 4 \<or> v = 5 \<or> v = 6 \<or> v = 7
      \<or> v = 8 \<or> v = 9 \<or> v = 10 \<or> v = 11 \<or> v = 12 \<or> v = 13 \<or> v = 14 \<or> v = 15"
    by arith
  then show ?thesis
    by (elim disjE; hypsubst; code_simp)
qed

text \<open>
  The decoder's array for a status character that is a hexadecimal digit of value \<open>v\<close>:
  the places of weight 2, 4 and 8, in this order. The place of weight 1 is the one that
  \<open>slice(0, -1)\<close> removes.
\<close>

lemma lightStates_hex:
  assumes "data \<noteq> []" and "digitVal (last data) = Some v" and "v < 16"
  shows "lightStates data
          = [if bit v 1 then CHR ''1'' else CHR ''0'', if bit v 2 then CHR ''1'' else CHR ''0'',
             if bit v 3 then CHR ''1'' else CHR ''0'']"
proof -
  have p: "parseInt (sliceFrom data (- 1)) 16 = Num (int v)"
    by (simp only: sliceFrom_last[OF assms(1)] parseInt_hex_digit[OF assms(2,3)])
  have "slice (padStart 4 CHR ''0'' (toStringRadix (Num (int v)) 2)) 0 (- 1)
          = [if bit v 3 then CHR ''1'' else CHR ''0'', if bit v 2 then CHR ''1'' else CHR ''0'',
             if bit v 1 then CHR ''1'' else CHR ''0'']"
    unfolding binary_nibble[OF assms(3)]
    by (subst slice_drops_last) simp_all
  then show ?thesis
    unfolding lightStates_def Let_def p by simp
qed
section \<open>The decoder for switches\<close>

lemma lightStates_lookup:
  assumes "data \<noteq> []" and "digitVal (last data) = Some v" and "v < 16"
  shows "arrayGet (lightStates data) (jsMinus (Num i) (Num 1))
          = (if 1 \<le> i \<and> i \<le> 3 then Some (if bit v (nat i) then CHR ''1'' else CHR ''0'') else None)"
proof -
  have ls: "lightStates data
          = [if bit v 1 then CHR ''1'' else CHR ''0'', if bit v 2 then CHR ''1'' else CHR ''0'',
             if bit v 3 then CHR ''1'' else CHR ''0'']"
    by (rule lightStates_hex[OF assms])
  consider "i < 1 \<or> 3 < i" | "i = 1" | "i = 2" | "i = 3" by arith
  then show ?thesis
  proof cases
    case 1
    then show ?thesis
      unfolding ls arrayGet_def jsMinus_def by auto
  next
    case 2
    then show ?thesis
      unfolding ls arrayGet_def jsMinus_def by simp
  next
    case 3
    then show ?thesis
      unfolding ls arrayGet_def jsMinus_def by simp
  next
    case 4
    have "nat 3 = Suc (Suc (Suc 0))" by simp
    with 4 show ?thesis
      unfolding ls arrayGet_def jsMinus_def by simp
  qed
qed

lemma handleSwitchBLEData_hex:
  assumes "devType d = SWITCH" and "index d = Num i"
    and "data \<noteq> []" and "digitVal (last data) = Some v" and "v < 16"
  shows "published (handleSwitchBLEData d data st)
          = published st @
            (if 1 \<le> i \<and> i \<le> 3
             then [\<lparr>topic = topicPrefix st @ ''/to/set'',
                    payload = SetPayload (devId d) (serviceName d) ''On'' (JBool (bit v (nat i))),
                    qos = 1, retain = False, dup = False, cmd = ''publish''\<rparr>]
             else [])"
  unfolding handleSwitchBLEData_def Let_def assms(2) lightStates_lookup[OF assms(3-5)]
  using assms(1)
  by (simp add: logger_def setCharacteristic_def aedes_publish_def)
section \<open>The data byte of a switch command\<close>

lemma index_1_to_4: "1 \<le> i \<Longrightarrow> i \<le> 4 \<Longrightarrow> i = 1 \<or> i = 2 \<or> i = 3 \<or> i = (4::int)"
  by arith

lemma switchBits_in_range:
  assumes "1 \<le> i" and "i \<le> 4"
  shows "switchBits (Num i) on
          = map (\<lambda>k. Some (if int k = 4 - i \<or> (on \<and> int k = 8 - i) then 1 else 0)) [0..<8]"
proof (cases on)
  case True
  have "switchBits (Num i) True
          = map (\<lambda>k. Some (if int k = 4 - i \<or> (True \<and> int k = 8 - i) then 1 else 0)) [0..<8]"
    using index_1_to_4[OF assms] by (elim disjE; hypsubst; code_simp)
  with True show ?thesis by simp
next
  case False
  have "switchBits (Num i) False
          = map (\<lambda>k. Some (if int k = 4 - i \<or> (False \<and> int k = 8 - i) then 1 else 0)) [0..<8]"
    using index_1_to_4[OF assms] by (elim disjE; hypsubst; code_simp)
  with False show ?thesis by simp
qed

lemma switchData_in_range:
  assumes "1 \<le> i" and "i \<le> 4"
  shows "switchData (Num i) on
          = [''0123456789ABCDEF'' ! ((2 ^ nat (3 + i) + (if on then 2 ^ nat (i - 1) else 0)) div 16),
             ''0123456789ABCDEF'' ! ((2 ^ nat (3 + i) + (if on then 2 ^ nat (i - 1) else 0)) mod 16)]"
proof (cases on)
  case True
  have "switchData (Num i) True
          = [''0123456789ABCDEF'' ! ((2 ^ nat (3 + i) + 2 ^ nat (i - 1)) div 16),
             ''0123456789ABCDEF'' ! ((2 ^ nat (3 + i) + 2 ^ nat (i - 1)) mod 16)]"
    using index_1_to_4[OF assms] by (elim disjE; hypsubst; code_simp)
  with True show ?thesis by simp
next
  case False
  have "switchData (Num i) False
          = [''0123456789ABCDEF'' ! ((2 ^ nat (3 + i) + 0) div 16),
             ''0123456789ABCDEF'' ! ((2 ^ nat (3 + i) + 0) mod 16)]"
    using index_1_to_4[OF assms] by (elim disjE; hypsubst; code_simp)
  with False show ?thesis by simp
qed

lemma switchData_nibble:
  assumes "1 \<le> i" and "i \<le> 3"
  shows "switchData (Num i) on \<noteq> []"
    and "digitVal (last (switchData (Num i) on)) = Some (if on then 2 ^ nat (i - 1) else 0)"
proof -
  from assms have i: "i = 1 \<or> i = 2 \<or> i = 3" by arith
  have t: "switchData (Num i) True \<noteq> []
            \<and> digitVal (last (switchData (Num i) True)) = Some (2 ^ nat (i - 1))"
    using i by (elim disjE; hypsubst; code_simp)
  have f: "switchData (Num i) False \<noteq> []
            \<and> digitVal (last (switchData (Num i) False)) = Some 0"
    using i by (elim disjE; hypsubst; code_simp)
  show "switchData (Num i) on \<noteq> []"
    using t f by (cases on) simp_all
  show "digitVal (last (switchData (Num i) on)) = Some (if on then 2 ^ nat (i - 1) else 0)"
    using t f by (cases on) simp_all
qed
section \<open>The decoder for dimmers\<close>




section \<open>What the handlers leave alone\<close>

lemma blank_logger [simp]: "blank (logger origin level message st) = blank st"
  by (simp add: blank_def logger_def)

lemma blank_aedes_publish [simp]: "blank (aedes_publish p st) = blank st"
  by (simp add: blank_def aedes_publish_def)

lemma blank_blank [simp]: "blank (blank st) = blank st"
  by (simp add: blank_def)

lemma blank_fields [simp]:
  "deviceService (blank st) = deviceService st"
  "topicPrefix (blank st) = topicPrefix st"
  "published (blank st) = []"
  by (simp_all add: blank_def)

lemma blank_updates [simp]:
  "blank (st\<lparr>published := ps\<rparr>) = blank st"
  "blank (st\<lparr>logged := ls\<rparr>) = blank st"
  "blank (st\<lparr>bleDeviceCache := c\<rparr>) = blank st"
  "blank (st\<lparr>mqttService := m\<rparr>) = blank st"
  by (simp_all add: blank_def)

lemma logger_fields [simp]:
  "deviceService (logger origin level message st) = deviceService st"
  "mqttService (logger origin level message st) = mqttService st"
  "topicPrefix (logger origin level message st) = topicPrefix st"
  "bleDeviceCache (logger origin level message st) = bleDeviceCache st"
  "published (logger origin level message st) = published st"
  "logged (logger origin level message st) = logged st @ [(origin, level, message)]"
  by (simp_all add: logger_def)

lemma aedes_publish_fields [simp]:
  "deviceService (aedes_publish p st) = deviceService st"
  "mqttService (aedes_publish p st) = mqttService st"
  "topicPrefix (aedes_publish p st) = topicPrefix st"
  "bleDeviceCache (aedes_publish p st) = bleDeviceCache st"
  "published (aedes_publish p st) = published st @ [p]"
  "logged (aedes_publish p st) = logged st"
  by (simp_all add: aedes_publish_def)

lemma mqtt_publish_fields [simp]:
  "deviceService (mqtt_publish c st) = deviceService st"
  "topicPrefix (mqtt_publish c st) = topicPrefix st"
  "bleDeviceCache (mqtt_publish c st) = bleDeviceCache st"
  "published (mqtt_publish c st) = published st"
  "logged (mqtt_publish c st) = logged st"
  by (simp_all add: mqtt_publish_def split: option.split)

lemma appendingD:
  assumes "appending h"
  shows "blank (h st) = blank st"
    and "bleDeviceCache (h st) = bleDeviceCache st"
    and "mqttService (h st) = mqttService st"
    and "published (h st) = published st @ published (h (blank st))"
  using assms unfolding appending_def by blast+

lemma appending_fields:
  assumes "appending h"
  shows "deviceService (h st) = deviceService st" and "topicPrefix (h st) = topicPrefix st"
proof -
  have "deviceService (blank (h st)) = deviceService (blank st)"
    and "topicPrefix (blank (h st)) = topicPrefix (blank st)"
    by (simp_all only: appendingD(1)[OF assms])
  then show "deviceService (h st) = deviceService st" and "topicPrefix (h st) = topicPrefix st"
    by simp_all
qed

lemma appending_logger: "appending (logger origin level message)"
  by (simp add: appending_def)

lemma appending_setCharacteristic: "appending (setCharacteristic d c v)"
  by (simp add: appending_def setCharacteristic_def)

lemma appending_addDevice: "appending (addDevice d s ps)"
  by (simp add: appending_def addDevice_def)

lemma appending_publishDeviceAddition: "appending (publishDeviceAddition d)"
  by (cases "devType d") (simp_all add: appending_def publishDeviceAddition_def addDevice_def)

lemma appending_handleSwitchBLEData: "appending (handleSwitchBLEData d data)"
  by (simp add: appending_def handleSwitchBLEData_def Let_def setCharacteristic_def
        split: option.split)

lemma appending_handleDimmingBLEData: "appending (handleDimmingBLEData d data)"
  by (simp add: appending_def handleDimmingBLEData_def Let_def setCharacteristic_def
        split: jsnum.split)

lemma appending_dispatchBleData: "appending (dispatchBleData data d)"
proof (cases "devType d")
  case SWITCH
  then have "dispatchBleData data d = handleSwitchBLEData d data"
    by (simp add: dispatchBleData_def fun_eq_iff)
  then show ?thesis by (simp add: appending_handleSwitchBLEData)
next
  case DIMMING
  then have "dispatchBleData data d = handleDimmingBLEData d data"
    by (simp add: dispatchBleData_def fun_eq_iff)
  then show ?thesis by (simp add: appending_handleDimmingBLEData)
qed

text \<open>A loop whose every turn is appending is appending, and publishes turn after turn.\<close>

lemma fold_appending_state:
  assumes "\<And>x. appending (f x)"
  shows "blank (fold f xs st) = blank st
          \<and> bleDeviceCache (fold f xs st) = bleDeviceCache st
          \<and> mqttService (fold f xs st) = mqttService st
          \<and> published (fold f xs st)
               = published st @ concat (map (\<lambda>x. published (f x (blank st))) xs)"
proof (induction xs arbitrary: st)
  case Nil
  show ?case by simp
next
  case (Cons x xs)
  note step = appendingD[OF assms[of x], where st = st]
  show ?case
    using Cons.IH[of "f x st"] step by simp
qed

lemma appending_fold:
  assumes "\<And>x. appending (f x)"
  shows "appending (fold f xs)"
  unfolding appending_def
proof (intro allI conjI)
  fix st
  note a = fold_appending_state[OF assms, where xs = xs and st = st]
  note b = fold_appending_state[OF assms, where xs = xs and st = "blank st"]
  show "blank (fold f xs st) = blank st" using a by simp
  show "bleDeviceCache (fold f xs st) = bleDeviceCache st" using a by simp
  show "mqttService (fold f xs st) = mqttService st" using a by simp
  show "published (fold f xs st) = published st @ published (fold f xs (blank st))"
    using a b by simp
qed

lemma appending_handleBleDeviceData: "appending (handleBleDeviceData mac data)"
  unfolding appending_def
proof
  fix st
  let ?h = "handleBleDeviceData mac data"
  show "blank (?h st) = blank st \<and> bleDeviceCache (?h st) = bleDeviceCache st
          \<and> mqttService (?h st) = mqttService st
          \<and> published (?h st) = published st @ published (?h (blank st))"
  proof (cases "deviceService st")
    case None
    then show ?thesis by (simp add: handleBleDeviceData_def)
  next
    case (Some ds)
    show ?thesis
    proof (cases "getByMacAddress ds mac = []")
      case True
      with Some show ?thesis by (simp add: handleBleDeviceData_def)
    next
      case False
      have f: "appending (fold (dispatchBleData data) (getByMacAddress ds mac))"
        by (rule appending_fold) (rule appending_dispatchBleData)
      from Some False have "?h st = fold (dispatchBleData data) (getByMacAddress ds mac) st"
        and "?h (blank st) = fold (dispatchBleData data) (getByMacAddress ds mac) (blank st)"
        by (simp_all add: handleBleDeviceData_def)
      then show ?thesis
        using appendingD[OF f, where st = st] by simp
    qed
  qed
qed
section \<open>Dimming: the round trip of the two scalings\<close>

text \<open>
  Claim C8. For every integer brightness \<open>b\<close> from 0 to 100, the encoder's scaling
  \<open>round(b / 100 * 255)\<close> followed by the decoder's scaling \<open>round(v / 255 * 100)\<close> gives a
  value within 1 of \<open>b\<close>.
\<close>

theorem dimming_scaling_round_trip:
  assumes "0 \<le> b" and "b \<le> 100"
  shows "\<bar>brightnessPercent (scaledBrightness b) - b\<bar> \<le> 1"
  using percent_of_scaled[of b] by simp

theorem dimming_scaling_round_trip_witness:
  "(0::int) \<le> 50 \<and> (50::int) \<le> 100 \<and> scaledBrightness 50 = 128 \<and> brightnessPercent 128 = 50
     \<and> \<bar>brightnessPercent (scaledBrightness 50) - 50\<bar> \<le> 1"
  using dimming_scaling_round_trip[of 50]
  by (simp add: scaledBrightness_div brightnessPercent_div)

section \<open>Dimming: the decoder\<close>



section \<open>Switches: the decoder\<close>

text \<open>
  Claim C1, as amended. For every Switch device with an integer channel index \<open>i\<close> and
  every BLE status tail whose last character is a hexadecimal digit of value \<open>v\<close>, the
  decoder prints \<open>v\<close> as four binary places, drops the last place, which is the
  least-significant bit, reverses the remaining three, so that position 0 holds bit 1 of
  \<open>v\<close>, position 1 bit 2 and position 2 bit 3, and reports \<open>On\<close> equal to the element at
  position \<open>i - 1\<close>, which is bit \<open>i\<close> of \<open>v\<close>. When \<open>i\<close> is not 1, 2 or 3 no status
  update is published for the device.
\<close>

theorem switch_decode:
  assumes "devType d = SWITCH" and "index d = Num i"
    and "data \<noteq> []" and "digitVal (last data) = Some v" and "v < 16"
  shows "lightStates data
           = [if bit v 1 then CHR ''1'' else CHR ''0'', if bit v 2 then CHR ''1'' else CHR ''0'',
              if bit v 3 then CHR ''1'' else CHR ''0'']
       \<and> published (handleSwitchBLEData d data st)
           = published st @
             (if 1 \<le> i \<and> i \<le> 3
              then [\<lparr>topic = topicPrefix st @ ''/to/set'',
                     payload = SetPayload (devId d) (serviceName d) ''On'' (JBool (bit v (nat i))),
                     qos = 1, retain = False, dup = False, cmd = ''publish''\<rparr>]
              else [])"
  using lightStates_hex[OF assms(3-5)] handleSwitchBLEData_hex[OF assms] by simp

text \<open>
  The status nibble 2 (binary 0010) turns the switch at index 1 on.
\<close>

theorem switch_decode_witness:
  "devType kitchenSwitch = SWITCH \<and> index kitchenSwitch = Num 1
   \<and> ''4002'' \<noteq> [] \<and> digitVal (last ''4002'') = Some 2 \<and> (2::nat) < 16
   \<and> lightStates ''4002'' = ''100''
   \<and> published (handleSwitchBLEData kitchenSwitch ''4002'' exampleBridge)
       = [\<lparr>topic = ''homebridge/to/set'',
           payload = SetPayload ''M1-1'' ''Kitchen'' ''On'' (JBool True),
           qos = 1, retain = False, dup = False, cmd = ''publish''\<rparr>]"
proof -
  have h1: "devType kitchenSwitch = SWITCH" and h2: "index kitchenSwitch = Num 1"
    by (simp_all add: kitchenSwitch_def)
  have h3: "''4002'' \<noteq> []" by simp
  have h4: "digitVal (last ''4002'') = Some 2" by (simp add: digitVal_def)
  have h5: "(2::nat) < 16" by simp
  have b: "bit (2::nat) 1" "\<not> bit (2::nat) 2" "\<not> bit (2::nat) 3" "\<not> bit (2::nat) 0"
    by (simp_all add: bit_iff_odd)
  from switch_decode[OF h1 h2 h3 h4 h5, of exampleBridge]
  show ?thesis
    using h1 h2 h4 b
    by (simp add: serviceName_def exampleBridge_def kitchenSwitch_def)
qed

text \<open>
  The claim as first stated has the decoder drop the most-significant bit, so that the
  status nibble 1 (binary 0001) would turn the switch at index 1 on. The code drops the
  least-significant bit: for the tail \<open>4001\<close> the array is \<open>000\<close> and the update is off.
\<close>

theorem switch_decode_counterexample:
  "lightStates ''4001'' = ''000''
   \<and> published (handleSwitchBLEData kitchenSwitch ''4001'' exampleBridge)
       = [\<lparr>topic = ''homebridge/to/set'',
           payload = SetPayload ''M1-1'' ''Kitchen'' ''On'' (JBool False),
           qos = 1, retain = False, dup = False, cmd = ''publish''\<rparr>]"
  by code_simp

section \<open>Switches: encoding, then decoding\<close>

text \<open>
  Claim C4, as amended. For every Switch device with channel index \<open>i\<close> from 1 to 3,
  encoding the command for the state off and decoding the data byte that results (whose
  last character is its low nibble) for the same device publishes \<open>On\<close> false; encoding
  the state on and decoding also publishes \<open>On\<close> false, because the encoder sets bit
  \<open>i - 1\<close> of the low nibble and the decoder reads bit \<open>i\<close>.
\<close>

theorem switch_encode_then_decode:
  assumes "devType d = SWITCH" and "index d = Num i" and "1 \<le> i" and "i \<le> 3"
  shows "published (handleSwitchBLEData d (switchData (index d) on) st)
           = published st @
             [\<lparr>topic = topicPrefix st @ ''/to/set'',
               payload = SetPayload (devId d) (serviceName d) ''On'' (JBool False),
               qos = 1, retain = False, dup = False, cmd = ''publish''\<rparr>]"
proof -
  let ?v = "if on then 2 ^ nat (i - 1) else (0::nat)"
  have i: "i = 1 \<or> i = 2 \<or> i = 3" using assms(3,4) by arith
  have small: "?v < 16"
    using i by (elim disjE) simp_all
  have nobit: "\<not> bit ?v (nat i)"
    using i by (elim disjE) (simp_all add: bit_iff_odd)
  note n = switchData_nibble[OF assms(3,4), of on]
  from handleSwitchBLEData_hex[OF assms(1,2) n small, of st]
  show ?thesis
    using assms(2-4) nobit by simp
qed

theorem switch_encode_then_decode_witness:
  "devType kitchenSwitch = SWITCH \<and> index kitchenSwitch = Num 1 \<and> (1::int) \<le> 1 \<and> (1::int) \<le> 3
   \<and> switchData (index kitchenSwitch) False = ''10''
   \<and> published (handleSwitchBLEData kitchenSwitch (switchData (index kitchenSwitch) False)
        exampleBridge)
       = [\<lparr>topic = ''homebridge/to/set'',
           payload = SetPayload ''M1-1'' ''Kitchen'' ''On'' (JBool False),
           qos = 1, retain = False, dup = False, cmd = ''publish''\<rparr>]"
proof -
  have h1: "devType kitchenSwitch = SWITCH" and h2: "index kitchenSwitch = Num 1"
    by (simp_all add: kitchenSwitch_def)
  have d: "switchData (Num 1) False = ''10''" by code_simp
  from switch_encode_then_decode[OF h1 h2, of False exampleBridge]
  show ?thesis
    using h1 h2 d
    by (simp add: serviceName_def exampleBridge_def kitchenSwitch_def)
qed

text \<open>
  The claim as first stated has the state on come back as \<open>On\<close> true. For the switch at
  index 1 the data byte of on is \<open>11\<close>, and decoding it publishes \<open>On\<close> false.
\<close>

theorem switch_encode_then_decode_counterexample:
  "switchData (index kitchenSwitch) True = ''11''
   \<and> published (handleSwitchBLEData kitchenSwitch (switchData (index kitchenSwitch) True)
        exampleBridge)
       = [\<lparr>topic = ''homebridge/to/set'',
           payload = SetPayload ''M1-1'' ''Kitchen'' ''On'' (JBool False),
           qos = 1, retain = False, dup = False, cmd = ''publish''\<rparr>]"
  by code_simp
section \<open>Switches and dimmers: the encoder\<close>

lemma switchDevice_publishes:
  assumes "map_of this ident = Some d" and "devType d = SWITCH" and "macAddress d = Some mac"
    and "mqttService st = Some sent"
  shows "fst (switchDevice md5 this ident on st) = None"
    and "mqttService (snd (switchDevice md5 this ident on st))
          = Some (sent @ [performWrite (''cmd/'' @ md5 (md5 (gatewayId d))) d mac
                            (''02'' @ reversedMac mac @ ''8000'' @ switchData (index d) on @ ''00'')])"
  using assms by (simp_all add: switchDevice_def Let_def mqtt_publish_def)

lemma dimmingDevice_publishes:
  assumes "map_of this ident = Some d" and "devType d = DIMMING" and "macAddress d = Some mac"
    and "mqttService st = Some sent"
  shows "fst (dimmingDevice md5 this ident b st) = None"
    and "mqttService (snd (dimmingDevice md5 this ident b st))
          = Some (sent @ [performWrite (''cmd/'' @ md5 (md5 (gatewayId d))) d mac
                            (''02'' @ reversedMac mac @ ''8900'' @ dimmingData b)])"
  using assms by (simp_all add: dimmingDevice_def Let_def mqtt_publish_def)

text \<open>
  Claim C7, as amended. For every Switch device of the registry with channel index \<open>i\<close>
  from 1 to 4 and a MAC address, and every requested state, the encoder builds a field
  of 8 bits, written most-significant first, in which position \<open>4 - i\<close> is set, position
  \<open>8 - i\<close> is set exactly when the state is on and every other position is clear; the
  field is printed as two upper-case hexadecimal digits, and the command value is \<open>02\<close>,
  the octets of the MAC address in reverse order without colons, \<open>8000\<close>, the data byte
  and \<open>00\<close>; with an MQTT service present the switch encoder publishes one command
  object with this value. For every Dimming device of the registry with a MAC address
  and every requested brightness from 0 to 100, with an MQTT service present the dimming
  encoder publishes one command object. Each encoder publishes to the topic \<open>cmd/\<close>
  followed by the digest of the digest of the device's gateway id. The part on switches
  asks nothing of dimmers and the part on dimmers nothing of switches.
\<close>

theorem encoder_command_layout:
  "(1 \<le> i \<and> i \<le> 4 \<longrightarrow>
      switchBits (Num i) on
        = map (\<lambda>k. Some (if int k = 4 - i \<or> (on \<and> int k = 8 - i) then 1 else 0)) [0..<8]
      \<and> switchData (Num i) on
        = [''0123456789ABCDEF'' ! ((2 ^ nat (3 + i) + (if on then 2 ^ nat (i - 1) else 0)) div 16),
           ''0123456789ABCDEF'' ! ((2 ^ nat (3 + i) + (if on then 2 ^ nat (i - 1) else 0)) mod 16)])
   \<and> (map_of this ident = Some d \<and> devType d = SWITCH \<and> index d = Num i \<and> 1 \<le> i \<and> i \<le> 4
        \<and> macAddress d = Some mac \<and> mqttService st = Some sent \<longrightarrow>
      fst (switchDevice md5 this ident on st) = None
      \<and> mqttService (snd (switchDevice md5 this ident on st))
          = Some (sent @
              [\<lparr>cloud_topic = ''cmd/'' @ md5 (md5 (gatewayId d)), command = ''Control'',
                function_name = ''bleHelper.perform'',
                params = [\<lparr>action = ''write'', write_guid = guid d, mac_address = mac,
                           service_id = ''ff80'', char_id = ''ff81'',
                           write_value = ''02'' @ concat (rev (split mac CHR '':'')) @ ''8000''
                                           @ switchData (Num i) on @ ''00''\<rparr>],
                callback = [], raw = []\<rparr>]))
   \<and> (map_of this' ident' = Some d' \<and> devType d' = DIMMING \<and> macAddress d' = Some mac'
        \<and> mqttService st' = Some sent' \<and> 0 \<le> b \<and> b \<le> 100 \<longrightarrow>
      fst (dimmingDevice md5 this' ident' b st') = None
      \<and> mqttService (snd (dimmingDevice md5 this' ident' b st'))
          = Some (sent' @
              [\<lparr>cloud_topic = ''cmd/'' @ md5 (md5 (gatewayId d')), command = ''Control'',
                function_name = ''bleHelper.perform'',
                params = [\<lparr>action = ''write'', write_guid = guid d', mac_address = mac',
                           service_id = ''ff80'', char_id = ''ff81'',
                           write_value = ''02'' @ concat (rev (split mac' CHR '':'')) @ ''8900''
                                           @ dimmingData b\<rparr>],
                callback = [], raw = []\<rparr>]))"
proof (intro conjI impI)
  assume r: "1 \<le> i \<and> i \<le> 4"
  then have r1: "1 \<le> i" and r2: "i \<le> 4" by simp_all
  show "switchBits (Num i) on
        = map (\<lambda>k. Some (if int k = 4 - i \<or> (on \<and> int k = 8 - i) then 1 else 0)) [0..<8]"
    by (rule switchBits_in_range[OF r1 r2])
  show "switchData (Num i) on
        = [''0123456789ABCDEF'' ! ((2 ^ nat (3 + i) + (if on then 2 ^ nat (i - 1) else 0)) div 16),
           ''0123456789ABCDEF'' ! ((2 ^ nat (3 + i) + (if on then 2 ^ nat (i - 1) else 0)) mod 16)]"
    by (rule switchData_in_range[OF r1 r2])
next
  assume h: "map_of this ident = Some d \<and> devType d = SWITCH \<and> index d = Num i \<and> 1 \<le> i \<and> i \<le> 4
        \<and> macAddress d = Some mac \<and> mqttService st = Some sent"
  then have h1: "map_of this ident = Some d" and h2: "devType d = SWITCH"
    and h3: "index d = Num i" and h6: "macAddress d = Some mac"
    and h7: "mqttService st = Some sent"
    by simp_all
  note p = switchDevice_publishes[OF h1 h2 h6 h7, of md5 on]
  show "fst (switchDevice md5 this ident on st) = None" by (rule p(1))
  show "mqttService (snd (switchDevice md5 this ident on st))
          = Some (sent @
              [\<lparr>cloud_topic = ''cmd/'' @ md5 (md5 (gatewayId d)), command = ''Control'',
                function_name = ''bleHelper.perform'',
                params = [\<lparr>action = ''write'', write_guid = guid d, mac_address = mac,
                           service_id = ''ff80'', char_id = ''ff81'',
                           write_value = ''02'' @ concat (rev (split mac CHR '':'')) @ ''8000''
                                           @ switchData (Num i) on @ ''00''\<rparr>],
                callback = [], raw = []\<rparr>])"
    using p(2) by (simp add: h3 performWrite_def reversedMac_def)
next
  assume h: "map_of this' ident' = Some d' \<and> devType d' = DIMMING \<and> macAddress d' = Some mac'
        \<and> mqttService st' = Some sent' \<and> 0 \<le> b \<and> b \<le> 100"
  then have h1: "map_of this' ident' = Some d'" and h2: "devType d' = DIMMING"
    and h3: "macAddress d' = Some mac'" and h4: "mqttService st' = Some sent'"
    by simp_all
  note p = dimmingDevice_publishes[OF h1 h2 h3 h4, of md5 b]
  show "fst (dimmingDevice md5 this' ident' b st') = None" by (rule p(1))
  show "mqttService (snd (dimmingDevice md5 this' ident' b st'))
          = Some (sent' @
              [\<lparr>cloud_topic = ''cmd/'' @ md5 (md5 (gatewayId d')), command = ''Control'',
                function_name = ''bleHelper.perform'',
                params = [\<lparr>action = ''write'', write_guid = guid d', mac_address = mac',
                           service_id = ''ff80'', char_id = ''ff81'',
                           write_value = ''02'' @ concat (rev (split mac' CHR '':'')) @ ''8900''
                                           @ dimmingData b\<rparr>],
                callback = [], raw = []\<rparr>])"
    using p(2) by (simp add: performWrite_def reversedMac_def)
qed

text \<open>
  A registry that holds the kitchen switch and no dimmer, and a registry that holds the
  hall dimmer and no switch: each encoder publishes its command.
\<close>

theorem encoder_command_layout_witness:
  "(1::int) \<le> 1 \<and> (1::int) \<le> 4
   \<and> map_of [(''M1-1'', kitchenSwitch)] ''M1-1'' = Some kitchenSwitch
   \<and> devType kitchenSwitch = SWITCH \<and> index kitchenSwitch = Num 1
   \<and> macAddress kitchenSwitch = Some ''aa:bb:cc:dd:ee:ff''
   \<and> map_of [(''M2-0'', hallDimmer)] ''M2-0'' = Some hallDimmer \<and> devType hallDimmer = DIMMING
   \<and> macAddress hallDimmer = Some ''11:22:33:44:55:66''
   \<and> mqttService exampleBridge = Some [] \<and> (0::int) \<le> 50 \<and> (50::int) \<le> 100
   \<and> switchBits (Num 1) True
       = [Some 0, Some 0, Some 0, Some 1, Some 0, Some 0, Some 0, Some 1]
   \<and> switchData (Num 1) True = ''11''
   \<and> mqttService (snd (switchDevice exampleDigest [(''M1-1'', kitchenSwitch)] ''M1-1'' True
                        exampleBridge))
       = Some [\<lparr>cloud_topic = ''cmd/h(h(G1))'', command = ''Control'',
                function_name = ''bleHelper.perform'',
                params = [\<lparr>action = ''write'', write_guid = ''M1'',
                           mac_address = ''aa:bb:cc:dd:ee:ff'',
                           service_id = ''ff80'', char_id = ''ff81'',
                           write_value = ''02ffeeddccbbaa80001100''\<rparr>],
                callback = [], raw = []\<rparr>]
   \<and> mqttService (snd (dimmingDevice exampleDigest [(''M2-0'', hallDimmer)] ''M2-0'' 50
                        exampleBridge))
       = Some [\<lparr>cloud_topic = ''cmd/h(h(G1))'', command = ''Control'',
                function_name = ''bleHelper.perform'',
                params = [\<lparr>action = ''write'', write_guid = ''M2'',
                           mac_address = ''11:22:33:44:55:66'',
                           service_id = ''ff80'', char_id = ''ff81'',
                           write_value = ''02665544332211890080''\<rparr>],
                callback = [], raw = []\<rparr>]"
proof -
  have r: "(1::int) \<le> 1 \<and> (1::int) \<le> 4" by simp
  have s: "map_of [(''M1-1'', kitchenSwitch)] ''M1-1'' = Some kitchenSwitch
      \<and> devType kitchenSwitch = SWITCH \<and> index kitchenSwitch = Num 1 \<and> (1::int) \<le> 1 \<and> (1::int) \<le> 4
      \<and> macAddress kitchenSwitch = Some ''aa:bb:cc:dd:ee:ff'' \<and> mqttService exampleBridge = Some []"
    by (simp add: kitchenSwitch_def exampleBridge_def)
  have m: "map_of [(''M2-0'', hallDimmer)] ''M2-0'' = Some hallDimmer \<and> devType hallDimmer = DIMMING
      \<and> macAddress hallDimmer = Some ''11:22:33:44:55:66''
      \<and> mqttService exampleBridge = Some [] \<and> (0::int) \<le> 50 \<and> (50::int) \<le> 100"
    by (simp add: hallDimmer_def exampleBridge_def)
  have e: "concat (rev (split ''aa:bb:cc:dd:ee:ff'' CHR '':'')) = ''ffeeddccbbaa''"
    "concat (rev (split ''11:22:33:44:55:66'' CHR '':'')) = ''665544332211''"
    "dimmingData 50 = ''80''"
    "exampleDigest (exampleDigest ''G1'') = ''h(h(G1))''"
    "guid kitchenSwitch = ''M1''" "guid hallDimmer = ''M2''"
    "gatewayId kitchenSwitch = ''G1''" "gatewayId hallDimmer = ''G1''"
    "[0..<8] = [0, 1, 2, 3, 4, 5, 6, 7]"
    by code_simp+
  note inst = encoder_command_layout[of 1 True "[(''M1-1'', kitchenSwitch)]" "''M1-1''"
      kitchenSwitch "''aa:bb:cc:dd:ee:ff''" exampleBridge "[]" exampleDigest
      "[(''M2-0'', hallDimmer)]" "''M2-0''" hallDimmer "''11:22:33:44:55:66''" exampleBridge
      "[]" 50]
  from inst r have 1: "switchBits (Num 1) True
        = map (\<lambda>k. Some (if int k = 4 - 1 \<or> (True \<and> int k = 8 - 1) then 1 else 0)) [0..<8]"
    and 2: "switchData (Num 1) True
        = [''0123456789ABCDEF'' ! ((2 ^ nat (3 + 1) + (if True then 2 ^ nat (1 - 1) else 0)) div 16),
           ''0123456789ABCDEF'' ! ((2 ^ nat (3 + 1) + (if True then 2 ^ nat (1 - 1) else 0)) mod 16)]"
    by blast+
  from inst s have 3: "mqttService (snd (switchDevice exampleDigest [(''M1-1'', kitchenSwitch)]
                          ''M1-1'' True exampleBridge))
          = Some ([] @
              [\<lparr>cloud_topic = ''cmd/'' @ exampleDigest (exampleDigest (gatewayId kitchenSwitch)),
                command = ''Control'', function_name = ''bleHelper.perform'',
                params = [\<lparr>action = ''write'', write_guid = guid kitchenSwitch,
                           mac_address = ''aa:bb:cc:dd:ee:ff'',
                           service_id = ''ff80'', char_id = ''ff81'',
                           write_value = ''02'' @ concat (rev (split ''aa:bb:cc:dd:ee:ff'' CHR '':''))
                                           @ ''8000'' @ switchData (Num 1) True @ ''00''\<rparr>],
                callback = [], raw = []\<rparr>])"
    by blast
  from inst m have 4: "mqttService (snd (dimmingDevice exampleDigest [(''M2-0'', hallDimmer)]
                          ''M2-0'' 50 exampleBridge))
          = Some ([] @
              [\<lparr>cloud_topic = ''cmd/'' @ exampleDigest (exampleDigest (gatewayId hallDimmer)),
                command = ''Control'', function_name = ''bleHelper.perform'',
                params = [\<lparr>action = ''write'', write_guid = guid hallDimmer,
                           mac_address = ''11:22:33:44:55:66'',
                           service_id = ''ff80'', char_id = ''ff81'',
                           write_value = ''02'' @ concat (rev (split ''11:22:33:44:55:66'' CHR '':''))
                                           @ ''8900'' @ dimmingData 50\<rparr>],
                callback = [], raw = []\<rparr>])"
    by blast
  have d: "switchData (Num 1) True = ''11''" using 2 by simp
  show ?thesis
    using s m 1 d 3 4 by (simp add: e)
qed

text \<open>
  The claim as first stated covers every index. The label \<open>ONOFF GANG5\<close> gives a switch
  with index 5; for it position \<open>4 - 5\<close> is no position of the field, the write goes to a
  named property, and the field for the state off has no bit set.
\<close>

theorem encoder_command_layout_counterexample:
  "fromAfterLoginResp fiveGangSnapshot = [(''M1-5'', fifthGang)]
   \<and> devType fifthGang = SWITCH \<and> index fifthGang = Num 5
   \<and> switchBits (index fifthGang) False = replicate 8 (Some 0)
   \<and> switchData (index fifthGang) False = ''00''"
  by code_simp

section \<open>Subscription: discovery, then replay\<close>

lemma appending_from_cleared:
  assumes "appending h"
  shows "published (h (st\<lparr>published := []\<rparr>)) = published (h (blank st))"
  using appendingD(4)[OF assms, of "st\<lparr>published := []\<rparr>"] by simp

lemma appending_replay_entry: "appending (case x of (mac, data) \<Rightarrow> handleBleDeviceData mac data)"
  by (cases x) (simp add: appending_handleBleDeviceData)

lemma publishDeviceAddition_packet:
  "published (publishDeviceAddition d (blank st))
     = [\<lparr>topic = topicPrefix st @ ''/to/add'',
         payload = AddPayload (devId d) (serviceName d) ''Lightbulb''
                     (if devType d = DIMMING then [(''Brightness'', ''default'')] else []),
         qos = 1, retain = False, dup = False, cmd = ''publish''\<rparr>]"
  by (cases "devType d") (simp_all add: publishDeviceAddition_def addDevice_def)

lemma handleSubscription_other_topic:
  assumes "t \<noteq> topicPrefix st @ ''/to/#''"
  shows "handleSubscription t client st
           = logger ''AedesService'' INFO (''Client '' @ client @ '' subscribed to topic: '' @ t) st"
  using assms by (simp add: handleSubscription_def Let_def)

lemma handleSubscription_published:
  "published (handleSubscription (topicPrefix st @ ''/to/#'') client st)
     = published st
       @ concat (map (\<lambda>d. published (publishDeviceAddition d (blank st)))
                  (case deviceService st of None \<Rightarrow> [] | Some ds \<Rightarrow> map snd ds))
       @ concat (map (\<lambda>x. published ((case x of (mac, data) \<Rightarrow> handleBleDeviceData mac data)
                                        (blank st)))
                  (bleDeviceCache st))"
proof -
  let ?t = "topicPrefix st @ ''/to/#''"
  let ?devices = "case deviceService st of None \<Rightarrow> [] | Some ds \<Rightarrow> map snd ds"
  define st1 where "st1 = logger ''AedesService'' INFO
                            (''Client '' @ client @ '' subscribed to topic: '' @ ?t) st"
  define st2 where "st2 = fold publishDeviceAddition ?devices st1"
  define st3 where "st3 = logger ''AedesService'' INFO
                            (''Replaying cached BLE device data for client '' @ client) st2"
  have run: "handleSubscription ?t client st
               = fold (\<lambda>(mac, data). handleBleDeviceData mac data) (bleDeviceCache st3) st3"
    by (simp add: handleSubscription_def Let_def st1_def st2_def st3_def)
  note d = fold_appending_state[of publishDeviceAddition ?devices st1,
      OF appending_publishDeviceAddition]
  have b2: "blank st2 = blank st" and c2: "bleDeviceCache st2 = bleDeviceCache st"
    and p2: "published st2
               = published st @ concat (map (\<lambda>d. published (publishDeviceAddition d (blank st)))
                                         ?devices)"
    using d by (simp_all add: st2_def st1_def)
  have b3: "blank st3 = blank st" and c3: "bleDeviceCache st3 = bleDeviceCache st"
    and p3: "published st3 = published st2"
    using b2 c2 by (simp_all add: st3_def)
  note r = fold_appending_state[of "\<lambda>(mac, data). handleBleDeviceData mac data"
      "bleDeviceCache st3" st3, OF appending_replay_entry]
  show ?thesis
    unfolding run using r by (simp add: b3 c3 p3 p2)
qed

text \<open>
  Claim C2. For every subscription whose topic is exactly the prefix followed by \<open>/to/#\<close>,
  the broker first publishes, for every device of the registry in order, one discovery
  message to the prefix followed by \<open>/to/add\<close>, with service \<open>Lightbulb\<close> and, for a
  Dimming device only, \<open>Brightness: "default"\<close>; after these it publishes, for every entry
  of the replay cache in order, the packets that the decode pipeline
  (\<open>handleBleDeviceData\<close>) publishes for that MAC address and payload, which are the packets
  the BLE event published when that frame was received and decoded against the same
  registry. A subscription to any other topic publishes nothing.
\<close>

theorem subscription_discovery_then_replay:
  "published (handleSubscription (topicPrefix st @ ''/to/#'') client st)
     = published st
       @ map (\<lambda>d. \<lparr>topic = topicPrefix st @ ''/to/add'',
                    payload = AddPayload (devId d) (serviceName d) ''Lightbulb''
                                (if devType d = DIMMING then [(''Brightness'', ''default'')] else []),
                    qos = 1, retain = False, dup = False, cmd = ''publish''\<rparr>)
           (case deviceService st of None \<Rightarrow> [] | Some ds \<Rightarrow> map snd ds)
       @ concat (map (\<lambda>(mac, data). published (handleBleDeviceData mac data (st\<lparr>published := []\<rparr>)))
                  (bleDeviceCache st))
   \<and> published (extractAndCacheBleDeviceMessage p st)
     = published st
       @ published (handleBleDeviceData (slice p 0 17) (sliceFrom p 17) (st\<lparr>published := []\<rparr>))
   \<and> (t \<noteq> topicPrefix st @ ''/to/#'' \<longrightarrow>
        published (handleSubscription t client st) = published st
        \<and> mqttService (handleSubscription t client st) = mqttService st)"
proof (intro conjI impI)
  have "(\<lambda>x. published ((case x of (mac, data) \<Rightarrow> handleBleDeviceData mac data) (blank st)))
          = (\<lambda>(mac, data). published (handleBleDeviceData mac data (st\<lparr>published := []\<rparr>)))"
    by (simp add: fun_eq_iff appending_from_cleared[OF appending_handleBleDeviceData])
  then show "published (handleSubscription (topicPrefix st @ ''/to/#'') client st)
     = published st
       @ map (\<lambda>d. \<lparr>topic = topicPrefix st @ ''/to/add'',
                    payload = AddPayload (devId d) (serviceName d) ''Lightbulb''
                                (if devType d = DIMMING then [(''Brightness'', ''default'')] else []),
                    qos = 1, retain = False, dup = False, cmd = ''publish''\<rparr>)
           (case deviceService st of None \<Rightarrow> [] | Some ds \<Rightarrow> map snd ds)
       @ concat (map (\<lambda>(mac, data). published (handleBleDeviceData mac data (st\<lparr>published := []\<rparr>)))
                  (bleDeviceCache st))"
    by (simp add: handleSubscription_published publishDeviceAddition_packet)
next
  let ?mac = "slice p 0 17" and ?data = "sliceFrom p 17"
  let ?st' = "logger ''AedesService'' DEBUG
                (''Cached BLE device data: MAC='' @ ?mac @ '', Data='' @ ?data)
                (st\<lparr>bleDeviceCache := AList.update ?mac ?data (bleDeviceCache st)\<rparr>)"
  have "extractAndCacheBleDeviceMessage p st = handleBleDeviceData ?mac ?data ?st'"
    by (simp add: extractAndCacheBleDeviceMessage_def Let_def)
  then show "published (extractAndCacheBleDeviceMessage p st)
     = published st @ published (handleBleDeviceData ?mac ?data (st\<lparr>published := []\<rparr>))"
    using appendingD(4)[OF appending_handleBleDeviceData, of ?mac ?data ?st']
    by (simp add: appending_from_cleared[OF appending_handleBleDeviceData])
next
  assume "t \<noteq> topicPrefix st @ ''/to/#''"
  then show "published (handleSubscription t client st) = published st"
    and "mqttService (handleSubscription t client st) = mqttService st"
    by (simp_all add: handleSubscription_other_topic)
qed

theorem subscription_discovery_then_replay_witness:
  "''homebridge/to/add'' \<noteq> topicPrefix cachedBridge @ ''/to/#''
   \<and> published (handleSubscription ''homebridge/to/add'' ''hub'' cachedBridge) = []
   \<and> published (handleSubscription ''homebridge/to/#'' ''hub'' cachedBridge)
       = [\<lparr>topic = ''homebridge/to/add'',
           payload = AddPayload ''M1-1'' ''Kitchen'' ''Lightbulb'' [],
           qos = 1, retain = False, dup = False, cmd = ''publish''\<rparr>,
          \<lparr>topic = ''homebridge/to/add'',
           payload = AddPayload ''M2-0'' ''Lamp (Hall)'' ''Lightbulb'' [(''Brightness'', ''default'')],
           qos = 1, retain = False, dup = False, cmd = ''publish''\<rparr>,
          \<lparr>topic = ''homebridge/to/set'',
           payload = SetPayload ''M2-0'' ''Lamp (Hall)'' ''Brightness'' (JNum 50),
           qos = 1, retain = False, dup = False, cmd = ''publish''\<rparr>,
          \<lparr>topic = ''homebridge/to/set'',
           payload = SetPayload ''M2-0'' ''Lamp (Hall)'' ''On'' (JBool True),
           qos = 1, retain = False, dup = False, cmd = ''publish''\<rparr>,
          \<lparr>topic = ''homebridge/to/set'',
           payload = SetPayload ''M1-1'' ''Kitchen'' ''On'' (JBool True),
           qos = 1, retain = False, dup = False, cmd = ''publish''\<rparr>]"
proof -
  have h: "''homebridge/to/add'' \<noteq> topicPrefix cachedBridge @ ''/to/#''"
    by (simp add: cachedBridge_def exampleBridge_def)
  have t: "topicPrefix cachedBridge @ ''/to/#'' = ''homebridge/to/#''"
    by (simp add: cachedBridge_def exampleBridge_def)
  have e: "published cachedBridge
       @ map (\<lambda>d. \<lparr>topic = topicPrefix cachedBridge @ ''/to/add'',
                    payload = AddPayload (devId d) (serviceName d) ''Lightbulb''
                                (if devType d = DIMMING then [(''Brightness'', ''default'')] else []),
                    qos = 1, retain = False, dup = False, cmd = ''publish''\<rparr>)
           (case deviceService cachedBridge of None \<Rightarrow> [] | Some ds \<Rightarrow> map snd ds)
       @ concat (map (\<lambda>(mac, data).
                        published (handleBleDeviceData mac data (cachedBridge\<lparr>published := []\<rparr>)))
                  (bleDeviceCache cachedBridge))
       = [\<lparr>topic = ''homebridge/to/add'',
           payload = AddPayload ''M1-1'' ''Kitchen'' ''Lightbulb'' [],
           qos = 1, retain = False, dup = False, cmd = ''publish''\<rparr>,
          \<lparr>topic = ''homebridge/to/add'',
           payload = AddPayload ''M2-0'' ''Lamp (Hall)'' ''Lightbulb'' [(''Brightness'', ''default'')],
           qos = 1, retain = False, dup = False, cmd = ''publish''\<rparr>,
          \<lparr>topic = ''homebridge/to/set'',
           payload = SetPayload ''M2-0'' ''Lamp (Hall)'' ''Brightness'' (JNum 50),
           qos = 1, retain = False, dup = False, cmd = ''publish''\<rparr>,
          \<lparr>topic = ''homebridge/to/set'',
           payload = SetPayload ''M2-0'' ''Lamp (Hall)'' ''On'' (JBool True),
           qos = 1, retain = False, dup = False, cmd = ''publish''\<rparr>,
          \<lparr>topic = ''homebridge/to/set'',
           payload = SetPayload ''M1-1'' ''Kitchen'' ''On'' (JBool True),
           qos = 1, retain = False, dup = False, cmd = ''publish''\<rparr>]"
    by code_simp
  have q: "published cachedBridge = []"
    by (simp add: cachedBridge_def exampleBridge_def)
  note inst = subscription_discovery_then_replay[of cachedBridge "''hub''" "[]" "''homebridge/to/add''"]
  from inst have 1: "published (handleSubscription (topicPrefix cachedBridge @ ''/to/#'') ''hub'' cachedBridge)
       = published cachedBridge
       @ map (\<lambda>d. \<lparr>topic = topicPrefix cachedBridge @ ''/to/add'',
                    payload = AddPayload (devId d) (serviceName d) ''Lightbulb''
                                (if devType d = DIMMING then [(''Brightness'', ''default'')] else []),
                    qos = 1, retain = False, dup = False, cmd = ''publish''\<rparr>)
           (case deviceService cachedBridge of None \<Rightarrow> [] | Some ds \<Rightarrow> map snd ds)
       @ concat (map (\<lambda>(mac, data).
                        published (handleBleDeviceData mac data (cachedBridge\<lparr>published := []\<rparr>)))
                  (bleDeviceCache cachedBridge))"
    by (rule conjunct1)
  from inst h have 2: "published (handleSubscription ''homebridge/to/add'' ''hub'' cachedBridge)
       = published cachedBridge"
    by blast
  note 3 = 1[unfolded e t] and 4 = 2[unfolded q]
  show ?thesis
    using h 3 4 by simp
qed
section \<open>BLE frames: the replay cache\<close>

lemma slice_take_17: "slice p 0 17 = take 17 p"
  by (simp add: slice_def Let_def min_def)

lemma sliceFrom_drop_17: "sliceFrom p 17 = drop 17 p"
  by (simp add: sliceFrom_def slice_def Let_def min_def)

lemma ble_topic_is_not_a_command_topic: "''yoswit/ble/devices'' \<noteq> prefix @ ''/from/set''"
proof
  assume "''yoswit/ble/devices'' = prefix @ ''/from/set''"
  then have "last ''yoswit/ble/devices'' = last (prefix @ ''/from/set'')" by simp
  then show False by simp
qed

lemma handlePublish_ble:
  "handlePublish JSON_parse md5 ''yoswit/ble/devices'' p client st
     = (None, extractAndCacheBleDeviceMessage p
                (logger ''AedesService'' DEBUG
                   (''Message from client '' @ client @ '': Topic='' @ ''yoswit/ble/devices''
                      @ '' Payload='' @ p) st))"
  using ble_topic_is_not_a_command_topic[of "topicPrefix st"]
  by (simp add: handlePublish_def Let_def)

text \<open>
  Claim C9. For every publish on the BLE-relay topic with payload \<open>p\<close>, after the handler
  has run the replay cache maps the first 17 characters of \<open>p\<close> to the rest of \<open>p\<close>; the
  decode runs from a state whose cache already holds this entry, so the update comes
  first and does not depend on a device matching or on the decode publishing anything;
  every other entry of the cache and the registry are as before, and the handler does not
  throw.
\<close>

theorem ble_publish_updates_cache:
  "fst (handlePublish JSON_parse md5 ''yoswit/ble/devices'' p client st) = None
   \<and> bleDeviceCache (snd (handlePublish JSON_parse md5 ''yoswit/ble/devices'' p client st))
       = AList.update (take 17 p) (drop 17 p) (bleDeviceCache st)
   \<and> map_of (bleDeviceCache (snd (handlePublish JSON_parse md5 ''yoswit/ble/devices'' p client st)))
        (take 17 p) = Some (drop 17 p)
   \<and> (\<forall>k. k \<noteq> take 17 p \<longrightarrow>
          map_of (bleDeviceCache (snd (handlePublish JSON_parse md5 ''yoswit/ble/devices'' p client st))) k
            = map_of (bleDeviceCache st) k)
   \<and> deviceService (snd (handlePublish JSON_parse md5 ''yoswit/ble/devices'' p client st))
       = deviceService st
   \<and> (\<exists>s. map_of (bleDeviceCache s) (take 17 p) = Some (drop 17 p)
          \<and> published s = published st \<and> deviceService s = deviceService st
          \<and> snd (handlePublish JSON_parse md5 ''yoswit/ble/devices'' p client st)
              = handleBleDeviceData (take 17 p) (drop 17 p) s)"
proof -
  let ?st0 = "logger ''AedesService'' DEBUG
                (''Message from client '' @ client @ '': Topic='' @ ''yoswit/ble/devices''
                   @ '' Payload='' @ p) st"
  let ?s = "logger ''AedesService'' DEBUG
              (''Cached BLE device data: MAC='' @ take 17 p @ '', Data='' @ drop 17 p)
              (?st0\<lparr>bleDeviceCache := AList.update (take 17 p) (drop 17 p) (bleDeviceCache ?st0)\<rparr>)"
  let ?out = "handlePublish JSON_parse md5 ''yoswit/ble/devices'' p client st"
  have run: "?out = (None, handleBleDeviceData (take 17 p) (drop 17 p) ?s)"
    by (simp add: handlePublish_ble extractAndCacheBleDeviceMessage_def Let_def
          slice_take_17 sliceFrom_drop_17)
  note a = appending_handleBleDeviceData[of "take 17 p" "drop 17 p"]
  have cache: "bleDeviceCache (snd ?out) = AList.update (take 17 p) (drop 17 p) (bleDeviceCache st)"
    by (simp add: run appendingD(2)[OF a])
  have reg: "deviceService (snd ?out) = deviceService st"
    by (simp add: run appending_fields(1)[OF a])
  have s: "map_of (bleDeviceCache ?s) (take 17 p) = Some (drop 17 p)"
    "published ?s = published st" "deviceService ?s = deviceService st"
    by (simp_all add: update_conv')
  show ?thesis
  proof (intro conjI allI impI)
    show "fst ?out = None" by (simp add: run)
    show "bleDeviceCache (snd ?out) = AList.update (take 17 p) (drop 17 p) (bleDeviceCache st)"
      by (rule cache)
    show "map_of (bleDeviceCache (snd ?out)) (take 17 p) = Some (drop 17 p)"
      by (simp add: cache update_conv')
    show "map_of (bleDeviceCache (snd ?out)) k = map_of (bleDeviceCache st) k"
      if "k \<noteq> take 17 p" for k
      using that by (simp add: cache update_conv')
    show "deviceService (snd ?out) = deviceService st" by (rule reg)
    show "\<exists>s. map_of (bleDeviceCache s) (take 17 p) = Some (drop 17 p)
          \<and> published s = published st \<and> deviceService s = deviceService st
          \<and> snd ?out = handleBleDeviceData (take 17 p) (drop 17 p) s"
      using s run by (intro exI[of _ ?s]) simp
  qed
qed

text \<open>
  A frame for a MAC address that no device has: the new entry is cached, the entry of
  another address is kept, and nothing is published.
\<close>

theorem ble_publish_updates_cache_witness:
  "''aa:bb:cc:dd:ee:ff'' \<noteq> take 17 ''00:00:00:00:00:0100004001''
   \<and> map_of (bleDeviceCache (snd (handlePublish exampleParse exampleDigest ''yoswit/ble/devices''
                ''00:00:00:00:00:0100004001'' ''relay'' cachedBridge))) ''aa:bb:cc:dd:ee:ff''
       = Some ''00004002''
   \<and> bleDeviceCache (snd (handlePublish exampleParse exampleDigest ''yoswit/ble/devices''
                ''00:00:00:00:00:0100004001'' ''relay'' cachedBridge))
       = [(''11:22:33:44:55:66'', ''00007F02''), (''aa:bb:cc:dd:ee:ff'', ''00004002''),
          (''00:00:00:00:00:01'', ''00004001'')]
   \<and> published (snd (handlePublish exampleParse exampleDigest ''yoswit/ble/devices''
                ''00:00:00:00:00:0100004001'' ''relay'' cachedBridge)) = []"
proof -
  have h: "''aa:bb:cc:dd:ee:ff'' \<noteq> take 17 ''00:00:00:00:00:0100004001''" by simp
  have e: "AList.update (take 17 ''00:00:00:00:00:0100004001'')
             (drop 17 ''00:00:00:00:00:0100004001'') (bleDeviceCache cachedBridge)
           = [(''11:22:33:44:55:66'', ''00007F02''), (''aa:bb:cc:dd:ee:ff'', ''00004002''),
              (''00:00:00:00:00:01'', ''00004001'')]"
    "map_of (bleDeviceCache cachedBridge) ''aa:bb:cc:dd:ee:ff'' = Some ''00004002''"
    by code_simp+
  have q: "published (snd (handlePublish exampleParse exampleDigest ''yoswit/ble/devices''
                ''00:00:00:00:00:0100004001'' ''relay'' cachedBridge)) = []"
    by code_simp
  note inst = ble_publish_updates_cache[of exampleParse exampleDigest
      "''00:00:00:00:00:0100004001''" "''relay''" cachedBridge]
  from inst h have 1: "map_of (bleDeviceCache (snd (handlePublish exampleParse exampleDigest
                ''yoswit/ble/devices'' ''00:00:00:00:00:0100004001'' ''relay'' cachedBridge)))
              ''aa:bb:cc:dd:ee:ff''
            = map_of (bleDeviceCache cachedBridge) ''aa:bb:cc:dd:ee:ff''"
    by blast
  from inst have 2: "bleDeviceCache (snd (handlePublish exampleParse exampleDigest
                ''yoswit/ble/devices'' ''00:00:00:00:00:0100004001'' ''relay'' cachedBridge))
       = AList.update (take 17 ''00:00:00:00:00:0100004001'')
             (drop 17 ''00:00:00:00:00:0100004001'') (bleDeviceCache cachedBridge)"
    by blast
  note 3 = 1[unfolded e] and 4 = 2[unfolded e]
  show ?thesis
    using h 3 4 q by simp
qed

section \<open>Hub commands: the parse is not guarded\<close>

lemma tryCatch_returns: "fst (tryCatch body handler st) = None"
  by (simp add: tryCatch_def split: prod.split option.split)

lemma handleHomebridgeSetMessage_returns: "fst (handleHomebridgeSetMessage md5 pl st) = None"
  by (simp add: handleHomebridgeSetMessage_def Let_def tryCatch_returns
        split: option.split)

text \<open>
  Claim C10. For a publish on the prefix followed by \<open>/from/set\<close> whose payload
  \<open>JSON.parse\<close> rejects, the exception of the parse leaves \<open>handlePublish\<close>: the handler
  throws it, after the debug line and before any command is dispatched, so that nothing
  is published to the hub or to the cloud and no error is logged. With a payload that
  parses, the handler returns normally.
\<close>

theorem unparsable_command_escapes:
  "(JSON_parse p = Inl e \<longrightarrow>
      handlePublish JSON_parse md5 (topicPrefix st @ ''/from/set'') p client st
        = (Some e,
           logger ''AedesService'' DEBUG
             (''Message from client '' @ client @ '': Topic='' @ topicPrefix st @ ''/from/set''
                @ '' Payload='' @ p) st)
      \<and> published (snd (handlePublish JSON_parse md5 (topicPrefix st @ ''/from/set'') p client st))
          = published st
      \<and> mqttService (snd (handlePublish JSON_parse md5 (topicPrefix st @ ''/from/set'') p client st))
          = mqttService st)
   \<and> (JSON_parse p = Inr pl \<longrightarrow>
        fst (handlePublish JSON_parse md5 (topicPrefix st @ ''/from/set'') p client st) = None)"
proof (intro conjI impI)
  assume "JSON_parse p = Inl e"
  then show run: "handlePublish JSON_parse md5 (topicPrefix st @ ''/from/set'') p client st
        = (Some e,
           logger ''AedesService'' DEBUG
             (''Message from client '' @ client @ '': Topic='' @ topicPrefix st @ ''/from/set''
                @ '' Payload='' @ p) st)"
    by (simp add: handlePublish_def Let_def)
  show "published (snd (handlePublish JSON_parse md5 (topicPrefix st @ ''/from/set'') p client st))
          = published st"
    and "mqttService (snd (handlePublish JSON_parse md5 (topicPrefix st @ ''/from/set'') p client st))
          = mqttService st"
    by (simp_all add: run)
next
  assume parsed: "JSON_parse p = Inr pl"
  let ?st0 = "logger ''AedesService'' DEBUG
                (''Message from client '' @ client @ '': Topic='' @ topicPrefix st @ ''/from/set''
                   @ '' Payload='' @ p) st"
  obtain s where s: "handleHomebridgeSetMessage md5 pl ?st0 = (None, s)"
    using handleHomebridgeSetMessage_returns[of md5 pl ?st0]
    by (cases "handleHomebridgeSetMessage md5 pl ?st0") simp
  show "fst (handlePublish JSON_parse md5 (topicPrefix st @ ''/from/set'') p client st) = None"
    using parsed s by (simp add: handlePublish_def Let_def)
qed

text \<open>
  The empty payload is not JSON. The hub client that publishes it on the command topic
  makes the handler throw a \<open>SyntaxError\<close>.
\<close>

theorem unparsable_command_escapes_witness:
  "exampleParse [] = Inl SyntaxError
   \<and> handlePublish exampleParse exampleDigest ''homebridge/from/set'' [] ''hub'' exampleBridge
       = (Some SyntaxError,
          exampleBridge\<lparr>logged :=
            [(''AedesService'', DEBUG,
              ''Message from client hub: Topic=homebridge/from/set Payload='')]\<rparr>)"
proof -
  have h: "exampleParse [] = Inl SyntaxError"
    by (simp add: exampleParse_def)
  have t: "topicPrefix exampleBridge @ ''/from/set'' = ''homebridge/from/set''"
    by (simp add: exampleBridge_def)
  from unparsable_command_escapes[of exampleParse "[]"
      SyntaxError exampleDigest exampleBridge "''hub''"] h
  have "handlePublish exampleParse exampleDigest (topicPrefix exampleBridge @ ''/from/set'') []
          ''hub'' exampleBridge
        = (Some SyntaxError,
           logger ''AedesService'' DEBUG
             (''Message from client '' @ ''hub'' @ '': Topic='' @ topicPrefix exampleBridge
                @ ''/from/set'' @ '' Payload='' @ []) exampleBridge)"
    by blast
  then show ?thesis
    using h unfolding t by (simp add: logger_def exampleBridge_def)
qed
section \<open>The registry builder: what holds of every snapshot\<close>

lemma list_all_update:
  "list_all P al \<Longrightarrow> P (k, v) \<Longrightarrow> list_all P (AList.update k v al)"
  by (induction al) auto

lemma infoOk_lookup: "infoOk deviceInfo \<Longrightarrow> map_of deviceInfo k = Some info \<Longrightarrow> gateway info \<noteq> []"
  by (auto simp: infoOk_def list_all_iff dest!: map_of_SomeD)

lemma infoOk_gatewayStep: "infoOk deviceInfo \<Longrightarrow> infoOk (gatewayStep pd deviceInfo)"
  by (auto simp: gatewayStep_def infoOk_def intro!: list_all_update split: option.split)

lemma infoOk_macStep: "infoOk deviceInfo \<Longrightarrow> infoOk (macStep dd deviceInfo)"
  by (auto simp: macStep_def infoOk_def intro!: list_all_update split: option.split)

lemma infoOk_fold_gatewayStep: "infoOk deviceInfo \<Longrightarrow> infoOk (fold gatewayStep pds deviceInfo)"
  by (induction pds arbitrary: deviceInfo) (simp_all add: infoOk_gatewayStep)

lemma infoOk_fold_macStep: "infoOk deviceInfo \<Longrightarrow> infoOk (fold macStep dds deviceInfo)"
  by (induction dds arbitrary: deviceInfo) (simp_all add: infoOk_macStep)

lemma registryOk_update:
  assumes "registryOk devices" and "entryOk (k, d)"
  shows "registryOk (AList.update k d devices)"
  using assms by (simp add: registryOk_def distinct_update list_all_update)

lemma entryOk_switch:
  assumes "g \<noteq> []" and "truthyStr (infoMacAddress info)" and "gateway info \<noteq> []"
  shows "entryOk (g @ ''-'' @ showNum idx,
           \<lparr>devId = g @ ''-'' @ showNum idx, guid = g, devName = n, devType = SWITCH,
            index = idx, macAddress = infoMacAddress info, roomName = r,
            gatewayId = gateway info\<rparr>)"
  using assms by (auto simp: entryOk_def truthyStr_def split: option.splits)

lemma entryOk_dimming:
  assumes "g \<noteq> []" and "gateway info \<noteq> []"
  shows "entryOk (g @ ''-'' @ showNum (Num 0),
           \<lparr>devId = g @ ''-'' @ showNum (Num 0), guid = g, devName = n, devType = DIMMING,
            index = Num 0, macAddress = infoMacAddress info, roomName = r,
            gatewayId = gateway info\<rparr>)"
  using assms by (simp add: entryOk_def)

lemma registryOk_subdeviceStep:
  assumes "infoOk deviceInfo" and "registryOk devices"
  shows "registryOk (subdeviceStep deviceInfo sd devices)"
proof (cases "device_button_group sd")
  case None
  with assms(2) show ?thesis by (simp add: subdeviceStep_def)
next
  case grp: (Some grp)
  show ?thesis
  proof (cases "sd_device sd")
    case None
    with grp assms(2) show ?thesis by (simp add: subdeviceStep_def Let_def)
  next
    case g: (Some g)
    show ?thesis
    proof (cases "map_of deviceInfo g")
      case None
      with grp g assms(2) show ?thesis by (simp add: subdeviceStep_def Let_def)
    next
      case (Some info)
      note gw = infoOk_lookup[OF assms(1) Some]
      have sw: "registryOk (AList.update (g @ ''-'' @ showNum idx)
           \<lparr>devId = g @ ''-'' @ showNum idx, guid = g, devName = n, devType = SWITCH,
            index = idx, macAddress = infoMacAddress info, roomName = r,
            gatewayId = gateway info\<rparr> devices)"
        if "g \<noteq> []" and "truthyStr (infoMacAddress info)" for idx n r
        by (rule registryOk_update[OF assms(2) entryOk_switch[OF that gw]])
      have dm: "registryOk (AList.update (g @ ''-'' @ showNum (Num 0))
           \<lparr>devId = g @ ''-'' @ showNum (Num 0), guid = g, devName = n, devType = DIMMING,
            index = Num 0, macAddress = infoMacAddress info, roomName = r,
            gatewayId = gateway info\<rparr> devices)"
        if "g \<noteq> []" for n r
        by (rule registryOk_update[OF assms(2) entryOk_dimming[OF that gw]])
      show ?thesis
        using grp g Some assms(2) sw dm
        by (simp add: subdeviceStep_def Let_def showStr_def)
    qed
  qed
qed

lemma registryOk_fold_subdeviceStep:
  assumes "infoOk deviceInfo"
  shows "registryOk devices \<Longrightarrow> registryOk (fold (subdeviceStep deviceInfo) sds devices)"
  by (induction sds arbitrary: devices) (simp_all add: registryOk_subdeviceStep[OF assms])

text \<open>
  For every snapshot the ids of the registry are distinct, each is the module id, a dash
  and the index, every device has a gateway id, and every switch has a MAC address.
\<close>

lemma registryOk_fromAfterLoginResp: "registryOk (fromAfterLoginResp data)"
proof -
  have "infoOk (fold macStep (device_values data) (fold gatewayStep (profile_devices data) []))"
    by (intro infoOk_fold_macStep infoOk_fold_gatewayStep) (simp add: infoOk_def)
  then show ?thesis
    unfolding fromAfterLoginResp_def Let_def
    by (intro registryOk_fold_subdeviceStep) (simp_all add: registryOk_def)
qed

section \<open>The registry builder and devices without a MAC address\<close>

text \<open>
  Claim C3 asks that the builder store only devices whose \<open>macAddress\<close> and \<open>gatewayId\<close>
  are non-empty, for Dimming records as for Switch records. The branch for switches
  checks both before it stores; the branch for dimmers stores what the lookup gives. For
  the snapshot \<open>dimmerWithoutMac\<close> the registry holds the dimmer \<open>M1-0\<close> with no MAC
  address, while the same snapshot with the label \<open>ONOFF GANG1\<close> stores nothing. The rest
  of the claim holds of every snapshot, by \<open>registryOk_fromAfterLoginResp\<close>.
\<close>

theorem dimmer_stored_without_mac:
  "fromAfterLoginResp dimmerWithoutMac
     = [(''M1-0'',
         \<lparr>devId = ''M1-0'', guid = ''M1'', devName = Some ''Lamp'', devType = DIMMING,
          index = Num 0, macAddress = None, roomName = None, gatewayId = ''G1''\<rparr>)]
   \<and> fromAfterLoginResp
       (dimmerWithoutMac\<lparr>profile_subdevices :=
          [\<lparr>device_button_group = Some ''ONOFF GANG1'', sd_device = Some ''M1'',
            title = Some ''Lamp'', room_name = None\<rparr>]\<rparr>)
     = []"
  by code_simp

section \<open>The error contract of the encoder\<close>

text \<open>
  For a registry whose devices have a MAC address, each encoder throws exactly when the
  id is unknown or the device has the other type.
\<close>

lemma switchDevice_throws_iff:
  assumes "\<And>d. map_of this ident = Some d \<Longrightarrow> macAddress d \<noteq> None"
  shows "fst (switchDevice md5 this ident on st) \<noteq> None
           \<longleftrightarrow> (case map_of this ident of None \<Rightarrow> True | Some d \<Rightarrow> devType d \<noteq> SWITCH)"
  using assms
  by (cases "map_of this ident") (auto simp: switchDevice_def Let_def split: option.split)

lemma dimmingDevice_throws_iff:
  assumes "\<And>d. map_of this ident = Some d \<Longrightarrow> macAddress d \<noteq> None"
  shows "fst (dimmingDevice md5 this ident b st) \<noteq> None
           \<longleftrightarrow> (case map_of this ident of None \<Rightarrow> True | Some d \<Rightarrow> devType d \<noteq> DIMMING)"
  using assms
  by (cases "map_of this ident") (auto simp: dimmingDevice_def Let_def split: option.split)

text \<open>Whatever an encoder throws, it has published nothing and only logged its debug line.\<close>

lemma switchDevice_error_state:
  assumes "fst (switchDevice md5 this ident on st) \<noteq> None"
  shows "snd (switchDevice md5 this ident on st)
           = logger ''DeviceService'' DEBUG
               (''Switching device '' @ ident @ '' to '' @ (if on then ''ON'' else ''OFF'')) st"
  using assms
  by (auto simp: switchDevice_def Let_def split: option.splits if_splits)

lemma dimmingDevice_error_state:
  assumes "fst (dimmingDevice md5 this ident b st) \<noteq> None"
  shows "snd (dimmingDevice md5 this ident b st)
           = logger ''DeviceService'' DEBUG
               (''Dimming device '' @ ident @ '' to brightness '' @ showNum (Num b)) st"
  using assms
  by (auto simp: dimmingDevice_def Let_def split: option.splits if_splits)

text \<open>
  The handler rejects \<open>Brightness\<close> for a device that is no dimmer, and a characteristic it
  does not know, with one log line and no publish.
\<close>

lemma handler_rejects:
  assumes "deviceService st = Some ds" and "map_of ds (payloadName pl) = Some d"
  shows "payloadCharacteristic pl = ''Brightness'' \<Longrightarrow> devType d \<noteq> DIMMING \<Longrightarrow>
           handleHomebridgeSetMessage md5 pl st
             = (None, logger ''AedesService'' ERROR
                        (''Device '' @ payloadName pl @ '' is not a dimming device'') st)"
    and "payloadCharacteristic pl \<noteq> ''On'' \<Longrightarrow> payloadCharacteristic pl \<noteq> ''Brightness'' \<Longrightarrow>
           handleHomebridgeSetMessage md5 pl st
             = (None, logger ''AedesService'' WARN ''Unknown characteristic:'' st)"
  using assms by (simp_all add: handleHomebridgeSetMessage_def getByName_def)

text \<open>
  Claim C6 has \<open>dimmingDevice\<close> throw exactly when the id is absent or the device is no
  dimmer. In the registry built from \<open>dimmerWithoutMac\<close> the id \<open>M1-0\<close> is present and its
  device is a dimmer, and \<open>dimmingDevice\<close> throws a \<open>TypeError\<close>, at \<open>macAddress.split\<close>. The
  handler of the hub command catches it, logs and publishes nothing.
\<close>

theorem dimming_command_on_stored_dimmer_throws:
  "map (\<lambda>(k, d). (k, devType d, macAddress d)) (fromAfterLoginResp dimmerWithoutMac)
     = [(''M1-0'', DIMMING, None)]
   \<and> fst (dimmingDevice exampleDigest (fromAfterLoginResp dimmerWithoutMac) ''M1-0'' 50
            (exampleBridge\<lparr>deviceService := Some (fromAfterLoginResp dimmerWithoutMac)\<rparr>))
     = Some TypeError
   \<and> handleHomebridgeSetMessage exampleDigest
        \<lparr>payloadName = ''M1-0'', payloadValue = JNum 50, payloadCharacteristic = ''Brightness''\<rparr>
        (exampleBridge\<lparr>deviceService := Some (fromAfterLoginResp dimmerWithoutMac)\<rparr>)
     = (None,
        exampleBridge
          \<lparr>deviceService := Some (fromAfterLoginResp dimmerWithoutMac),
           logged :=
             [(''AedesService'', INFO, ''Setting dimming device M1-0 to brightness: 50''),
              (''DeviceService'', DEBUG, ''Dimming device M1-0 to brightness 50''),
              (''AedesService'', ERROR, ''Failed to dim device M1-0:'')]\<rparr>)"
  by code_simp

end
